theory Spec2Isabelle
  imports Complex_Main "HOL-Library.AList"
begin

section \<open>Data model\<close>

text \<open>
  The services of the inventory plugin work on a relational store through Prisma.
  The store is modelled as a record of tables, every table a list of rows in insertion
  order. Generated primary keys are natural numbers drawn from the counter
  \<open>nextId\<close>; \<open>clock\<close> is the time \<open>new Date()\<close> reads, in milliseconds.
  Quantities are integers. The thresholds of the alert policy are fractions; they are
  computed exactly (over the rationals), which agrees with the double arithmetic of the
  source on integer quantities of any realistic size (below \<open>2^31\<close>).
  An optional JavaScript value (\<open>undefined\<close> or \<open>null\<close>) is \<open>None\<close>.
\<close>

datatype StockAlertLevel = NORMAL | LOW | CRITICAL | HIGH | OVERSTOCK

datatype TransactionType =
  RECEIVE | CONSUME | TRANSFER | ADJUST | DAMAGE | DISPOSE | ASSIGN | UNASSIGN

datatype TransactionStatus = PENDING | APPROVED | REJECTED | COMPLETED | CANCELLED

text \<open>Every \<open>throw new Error(...)\<close> of the services is one constructor.
  \<open>TypeError\<close> is the property access on a \<open>null\<close> relation, \<open>PrismaValidation\<close>
  the client's refusal of \<open>null\<close> as the filter of a required column,
  \<open>RecordNotFound\<close> its refusal to update a row that does not exist.\<close>

datatype error =
    ItemNotFound
  | LevelNotFound
  | InsufficientQuantity
  | InsufficientAvailable
  | OverRelease
  | TransactionNotFound
  | AlreadyCompleted
  | MustBeApproved
  | DestinationRequired
  | SourceRequired
  | BothRequired
  | PropertyRequired
  | DamageSourceRequired
  | StagingDesignRequired
  | InsufficientHistory
  | TypeError
  | PrismaValidation
  | RecordNotFound

fun message :: "error \<Rightarrow> string" where
  "message ItemNotFound = ''Item not found''"
| "message LevelNotFound = ''Inventory level not found''"
| "message InsufficientQuantity = ''Insufficient inventory quantity''"
| "message InsufficientAvailable = ''Insufficient available inventory''"
| "message OverRelease = ''Cannot release more than reserved quantity''"
| "message TransactionNotFound = ''Transaction not found''"
| "message AlreadyCompleted = ''Transaction already completed''"
| "message MustBeApproved = ''Transaction must be approved before processing''"
| "message DestinationRequired = ''Destination property required for receive transaction''"
| "message SourceRequired = ''Source property required for consume transaction''"
| "message BothRequired = ''Both source and destination properties required for transfer''"
| "message PropertyRequired = ''Property required for adjustment''"
| "message DamageSourceRequired = ''Source property required for damage/dispose transaction''"
| "message StagingDesignRequired = ''Staging design required for assign transaction''"
| "message InsufficientHistory =
     ''Insufficient historical data for forecasting (minimum 7 days required)''"
| "message TypeError = ''Cannot read properties of null''"
| "message PrismaValidation = ''Argument must not be null''"
| "message RecordNotFound = ''Record to update not found.''"

type_synonym 'a result = "error + 'a"

record InventoryItem =
  item_id :: string
  item_name :: string
  item_reorderPoint :: "int option"
  item_maxQuantity :: "int option"
  item_condition :: string

record InventoryLevel =
  level_id :: nat
  level_itemId :: string
  level_propertyId :: string
  level_unitId :: "string option"
  level_roomId :: "string option"
  level_locationName :: string
  level_locationPath :: string
  level_quantityOnHand :: int
  level_quantityReserved :: int
  level_quantityAvailable :: int
  level_minQuantity :: "int option"
  level_maxQuantity :: "int option"
  level_reorderPoint :: "int option"
  level_alertLevel :: StockAlertLevel
  level_binLocation :: "string option"
  level_shelfLocation :: "string option"
  level_notes :: "string option"
  level_lastCountedDate :: "int option"
  level_lastCountedBy :: "string option"

record CreateInventoryLevelDTO =
  c_itemId :: string
  c_propertyId :: string
  c_unitId :: "string option"
  c_roomId :: "string option"
  c_locationName :: string
  c_quantityOnHand :: "int option"
  c_minQuantity :: "int option"
  c_maxQuantity :: "int option"
  c_reorderPoint :: "int option"
  c_binLocation :: "string option"
  c_shelfLocation :: "string option"
  c_notes :: "string option"

record UpdateInventoryLevelDTO =
  u_itemId :: "string option"
  u_propertyId :: "string option"
  u_unitId :: "string option"
  u_roomId :: "string option"
  u_locationName :: "string option"
  u_quantityOnHand :: "int option"
  u_quantityReserved :: "int option"
  u_minQuantity :: "int option"
  u_maxQuantity :: "int option"
  u_reorderPoint :: "int option"
  u_binLocation :: "string option"
  u_shelfLocation :: "string option"
  u_notes :: "string option"

record AdjustInventoryDTO =
  a_itemId :: string
  a_propertyId :: string
  a_unitId :: "string option"
  a_roomId :: "string option"
  a_quantity :: int
  a_reason :: "string option"
  a_reasonCode :: "string option"
  a_notes :: "string option"
  a_createdBy :: "string option"

record Transaction =
  tx_id :: nat
  tx_type :: TransactionType
  tx_status :: TransactionStatus
  tx_itemId :: string
  tx_quantity :: int
  tx_fromPropertyId :: "string option"
  tx_fromUnitId :: "string option"
  tx_fromRoomId :: "string option"
  tx_fromLocation :: "string option"
  tx_toPropertyId :: "string option"
  tx_toUnitId :: "string option"
  tx_toRoomId :: "string option"
  tx_toLocation :: "string option"
  tx_reason :: "string option"
  tx_reasonCode :: "string option"
  tx_notes :: "string option"
  tx_stagingDesignId :: "string option"
  tx_createdBy :: "string option"
  tx_transactionDate :: int
  tx_completedAt :: "int option"

record StockAlert =
  alert_id :: nat
  alert_itemId :: string
  alert_levelId :: nat
  alert_alertType :: StockAlertLevel
  alert_message :: string
  alert_severity :: string
  alert_currentQuantity :: int
  alert_reorderPoint :: "int option"
  alert_isResolved :: bool

record DemandForecast =
  fc_itemId :: string
  fc_propertyId :: "string option"
  fc_forecastDate :: int
  fc_periodStart :: int
  fc_periodEnd :: int
  fc_predictedDemand :: real
  fc_lowerBound :: real
  fc_upperBound :: real
  fc_confidence :: real
  fc_seasonalFactor :: "real option"
  fc_trendFactor :: "real option"
  fc_modelVersion :: string

record db =
  inventoryItem :: "InventoryItem list"
  inventoryLevel :: "InventoryLevel list"
  transaction :: "Transaction list"
  stockAlert :: "StockAlert list"
  demandForecast :: "DemandForecast list"
  nextId :: nat
  clock :: int

section \<open>Configuration (config.ts)\<close>

record StockAlertConfig =
  criticalThreshold :: rat
  lowThreshold :: rat
  highThreshold :: rat
  overstockThreshold :: rat

definition config_stockAlert :: StockAlertConfig where
  "config_stockAlert =
     \<lparr>criticalThreshold = 1 / 10, lowThreshold = 1 / 2,
      highThreshold = 3 / 2, overstockThreshold = 2\<rparr>"

definition config_forecasting_historicalDays :: int where
  "config_forecasting_historicalDays = 90"

section \<open>JavaScript idioms\<close>

text \<open>\<open>x || null\<close> and \<open>x || undefined\<close> on an optional string: the empty string is
  falsy, so it becomes absent.\<close>

fun orNull :: "string option \<Rightarrow> string option" where
  "orNull None = None"
| "orNull (Some s) = (if s = [] then None else Some s)"

text \<open>\<open>a ?? b\<close>: only an absent left operand gives way.\<close>

fun nullish :: "'a option \<Rightarrow> 'a option \<Rightarrow> 'a option" where
  "nullish (Some a) b = Some a"
| "nullish None b = b"

fun nullishOr :: "'a option \<Rightarrow> 'a \<Rightarrow> 'a" where
  "nullishOr (Some a) b = a"
| "nullishOr None b = b"

text \<open>\<open>a || b\<close> on optional numbers: absent and zero are falsy.\<close>

fun falsyOrInt :: "int option \<Rightarrow> int option \<Rightarrow> int option" where
  "falsyOrInt None b = b"
| "falsyOrInt (Some a) b = (if a = 0 then b else Some a)"

text \<open>\<open>a || ''\<close> on an optional string.\<close>

fun orEmpty :: "string option \<Rightarrow> string" where
  "orEmpty None = []"
| "orEmpty (Some s) = s"

text \<open>A template fragment \<open>${x ? `/${x}` : ''}\<close>.\<close>

fun slashed :: "string option \<Rightarrow> string" where
  "slashed None = []"
| "slashed (Some s) = (if s = [] then [] else CHR ''/'' # s)"

section \<open>Table access\<close>

text \<open>\<open>update({where: {id}})\<close> changes the one row the unique key selects.\<close>

fun updateFirst :: "('r \<Rightarrow> bool) \<Rightarrow> ('r \<Rightarrow> 'r) \<Rightarrow> 'r list \<Rightarrow> 'r list" where
  "updateFirst P f [] = []"
| "updateFirst P f (r # rs) = (if P r then f r # rs else r # updateFirst P f rs)"

definition findItem :: "db \<Rightarrow> string \<Rightarrow> InventoryItem option" where
  "findItem d i = find (\<lambda>it. item_id it = i) (inventoryItem d)"

definition findLevel :: "db \<Rightarrow> nat \<Rightarrow> InventoryLevel option" where
  "findLevel d i = find (\<lambda>l. level_id l = i) (inventoryLevel d)"

definition findTransaction :: "db \<Rightarrow> nat \<Rightarrow> Transaction option" where
  "findTransaction d i = find (\<lambda>t. tx_id t = i) (transaction d)"

text \<open>Modelled from the spec: the Prisma schema is not part of the sources. No caller of
  \<open>prisma.transaction.create\<close> sets the column \<open>transactionDate\<close>, and the ledger's
  records are dated (the forecast reads the column), so it defaults to the time of
  creation. The row gets a fresh key.\<close>

definition transaction_create :: "db \<Rightarrow> Transaction \<Rightarrow> db" where
  "transaction_create d t =
     d\<lparr>transaction := transaction d @ [t\<lparr>tx_id := nextId d, tx_transactionDate := clock d\<rparr>],
       nextId := Suc (nextId d)\<rparr>"

section \<open>InventoryLevelService\<close>

definition level_matches ::
  "string \<Rightarrow> string \<Rightarrow> string option \<Rightarrow> string option \<Rightarrow> InventoryLevel \<Rightarrow> bool" where
  "level_matches itemId propertyId unitId roomId l \<longleftrightarrow>
     level_itemId l = itemId \<and> level_propertyId l = propertyId \<and>
     level_unitId l = orNull unitId \<and> level_roomId l = orNull roomId"

definition getLevelByLocation ::
  "db \<Rightarrow> string \<Rightarrow> string \<Rightarrow> string option \<Rightarrow> string option \<Rightarrow> InventoryLevel option" where
  "getLevelByLocation d itemId propertyId unitId roomId =
     find (level_matches itemId propertyId unitId roomId) (inventoryLevel d)"

text \<open>\<open>maxQuantity && quantity >= maxQuantity * factor\<close>: an absent or zero maximum is
  falsy and the comparison is not made.\<close>

fun atLeastMax :: "int option \<Rightarrow> int \<Rightarrow> rat \<Rightarrow> bool" where
  "atLeastMax None quantity factor = False"
| "atLeastMax (Some m) quantity factor = (m \<noteq> 0 \<and> of_int quantity \<ge> of_int m * factor)"

definition calculateAlertLevel :: "int \<Rightarrow> int option \<Rightarrow> int option \<Rightarrow> StockAlertLevel" where
  "calculateAlertLevel quantity reorderPoint maxQuantity =
     (case reorderPoint of
        None \<Rightarrow> NORMAL
      | Some rp \<Rightarrow>
          if rp = 0 then NORMAL
          else
            let criticalThreshold = of_int rp * criticalThreshold config_stockAlert;
                lowThreshold = of_int rp * lowThreshold config_stockAlert
            in if of_int quantity \<le> criticalThreshold then CRITICAL
               else if of_int quantity \<le> lowThreshold then LOW
               else if atLeastMax maxQuantity quantity (overstockThreshold config_stockAlert)
               then OVERSTOCK
               else if atLeastMax maxQuantity quantity (highThreshold config_stockAlert)
               then HIGH
               else NORMAL)"

definition buildLocationPath ::
  "string \<Rightarrow> string option \<Rightarrow> string option \<Rightarrow> string option \<Rightarrow> string" where
  "buildLocationPath propertyId unitId roomId locationName =
     propertyId @ slashed unitId @ slashed roomId @ slashed locationName"

definition createLevel :: "db \<Rightarrow> CreateInventoryLevelDTO \<Rightarrow> InventoryLevel result \<times> db" where
  "createLevel d data =
     (let locationPath = buildLocationPath (c_propertyId data) (c_unitId data) (c_roomId data)
                           (Some (c_locationName data))
      in case findItem d (c_itemId data) of
           None \<Rightarrow> (Inl ItemNotFound, d)
         | Some item \<Rightarrow>
             let quantityOnHand = nullishOr (c_quantityOnHand data) 0;
                 minQuantity = nullish (c_minQuantity data) (item_reorderPoint item);
                 maxQuantity = nullish (c_maxQuantity data) (item_maxQuantity item);
                 reorderPoint = nullish (c_reorderPoint data) (item_reorderPoint item);
                 alertLevel = calculateAlertLevel quantityOnHand reorderPoint maxQuantity;
                 row = \<lparr>level_id = nextId d,
                        level_itemId = c_itemId data,
                        level_propertyId = c_propertyId data,
                        level_unitId = c_unitId data,
                        level_roomId = c_roomId data,
                        level_locationName = c_locationName data,
                        level_locationPath = locationPath,
                        level_quantityOnHand = quantityOnHand,
                        level_quantityReserved = 0,
                        level_quantityAvailable = quantityOnHand,
                        level_minQuantity = minQuantity,
                        level_maxQuantity = maxQuantity,
                        level_reorderPoint = reorderPoint,
                        level_alertLevel = alertLevel,
                        level_binLocation = c_binLocation data,
                        level_shelfLocation = c_shelfLocation data,
                        level_notes = c_notes data,
                        level_lastCountedDate = None,
                        level_lastCountedBy = None\<rparr>
             in (Inr row,
                 d\<lparr>inventoryLevel := inventoryLevel d @ [row], nextId := Suc (nextId d)\<rparr>))"

text \<open>The spread \<open>...data\<close> of an update: every field the DTO carries overwrites the
  column, the others stay.\<close>

definition spreadUpdate :: "UpdateInventoryLevelDTO \<Rightarrow> InventoryLevel \<Rightarrow> InventoryLevel" where
  "spreadUpdate data l =
     l\<lparr>level_itemId := nullishOr (u_itemId data) (level_itemId l),
       level_propertyId := nullishOr (u_propertyId data) (level_propertyId l),
       level_unitId := nullish (u_unitId data) (level_unitId l),
       level_roomId := nullish (u_roomId data) (level_roomId l),
       level_locationName := nullishOr (u_locationName data) (level_locationName l),
       level_quantityOnHand := nullishOr (u_quantityOnHand data) (level_quantityOnHand l),
       level_quantityReserved := nullishOr (u_quantityReserved data) (level_quantityReserved l),
       level_minQuantity := nullish (u_minQuantity data) (level_minQuantity l),
       level_maxQuantity := nullish (u_maxQuantity data) (level_maxQuantity l),
       level_reorderPoint := nullish (u_reorderPoint data) (level_reorderPoint l),
       level_binLocation := nullish (u_binLocation data) (level_binLocation l),
       level_shelfLocation := nullish (u_shelfLocation data) (level_shelfLocation l),
       level_notes := nullish (u_notes data) (level_notes l)\<rparr>"

definition noUpdate :: UpdateInventoryLevelDTO where
  "noUpdate =
     \<lparr>u_itemId = None, u_propertyId = None, u_unitId = None, u_roomId = None,
      u_locationName = None, u_quantityOnHand = None, u_quantityReserved = None,
      u_minQuantity = None, u_maxQuantity = None, u_reorderPoint = None,
      u_binLocation = None, u_shelfLocation = None, u_notes = None\<rparr>"

text \<open>\<open>a ?? b ?? level.item.x\<close>: the item of the level is read only when both
  overrides are absent.\<close>

definition thresholdOf ::
  "db \<Rightarrow> InventoryLevel \<Rightarrow> int option \<Rightarrow> int option \<Rightarrow> (InventoryItem \<Rightarrow> int option) \<Rightarrow>
   (int option) result" where
  "thresholdOf d level a b sel =
     (case nullish a b of
        Some v \<Rightarrow> Inr (Some v)
      | None \<Rightarrow> (case findItem d (level_itemId level) of
                   None \<Rightarrow> Inl TypeError
                 | Some item \<Rightarrow> Inr (sel item)))"

definition updateLevel ::
  "db \<Rightarrow> nat \<Rightarrow> UpdateInventoryLevelDTO \<Rightarrow> InventoryLevel result \<times> db" where
  "updateLevel d i data =
     (case findLevel d i of
        None \<Rightarrow> (Inl LevelNotFound, d)
      | Some level \<Rightarrow>
          let quantityOnHand = nullishOr (u_quantityOnHand data) (level_quantityOnHand level);
              quantityReserved = nullishOr (u_quantityReserved data) (level_quantityReserved level);
              quantityAvailable = quantityOnHand - quantityReserved
          in (case thresholdOf d level (u_reorderPoint data) (level_reorderPoint level)
                     item_reorderPoint of
                Inl e \<Rightarrow> (Inl e, d)
              | Inr reorderPoint \<Rightarrow>
                  (case thresholdOf d level (u_maxQuantity data) (level_maxQuantity level)
                          item_maxQuantity of
                     Inl e \<Rightarrow> (Inl e, d)
                   | Inr maxQuantity \<Rightarrow>
                       let alertLevel = calculateAlertLevel quantityOnHand reorderPoint maxQuantity;
                           write = (\<lambda>r. (spreadUpdate data r)
                                     \<lparr>level_quantityAvailable := quantityAvailable,
                                      level_alertLevel := alertLevel\<rparr>)
                       in (Inr (write level),
                           d\<lparr>inventoryLevel :=
                               updateFirst (\<lambda>l. level_id l = i) write
                                 (inventoryLevel d)\<rparr>))))"

fun lowerName :: "StockAlertLevel \<Rightarrow> string" where
  "lowerName NORMAL = ''normal''"
| "lowerName LOW = ''low''"
| "lowerName CRITICAL = ''critical''"
| "lowerName HIGH = ''high''"
| "lowerName OVERSTOCK = ''overstock''"

text \<open>Modelled from the spec: the Prisma schema is not part of the sources; a created
  alert is open (\<open>isResolved\<close> false) until it is resolved, as the deduplication of
  open alerts in the spec presupposes.\<close>

definition stockAlert_create :: "db \<Rightarrow> StockAlert \<Rightarrow> db" where
  "stockAlert_create d a =
     d\<lparr>stockAlert := stockAlert d @ [a\<lparr>alert_id := nextId d, alert_isResolved := False\<rparr>],
       nextId := Suc (nextId d)\<rparr>"

definition checkAndCreateAlert :: "db \<Rightarrow> InventoryLevel \<Rightarrow> unit result \<times> db" where
  "checkAndCreateAlert d level =
     (if level_alertLevel level = CRITICAL \<or> level_alertLevel level = LOW then
        (let existingAlert =
               find (\<lambda>a. alert_itemId a = level_itemId level \<and> alert_levelId a = level_id level \<and>
                          alert_isResolved a = False) (stockAlert d)
         in case existingAlert of
              Some a \<Rightarrow> (Inr (), d)
            | None \<Rightarrow>
                (case findItem d (level_itemId level) of
                   None \<Rightarrow> (Inl TypeError, d)
                 | Some item \<Rightarrow>
                     (Inr (),
                      stockAlert_create d
                        \<lparr>alert_id = 0,
                         alert_itemId = level_itemId level,
                         alert_levelId = level_id level,
                         alert_alertType = level_alertLevel level,
                         alert_message = item_name item @ '' is '' @
                            lowerName (level_alertLevel level) @ '' at '' @
                            level_locationName level,
                         alert_severity =
                            (if level_alertLevel level = CRITICAL then ''critical'' else ''high''),
                         alert_currentQuantity = level_quantityOnHand level,
                         alert_reorderPoint =
                            falsyOrInt (level_reorderPoint level) (item_reorderPoint item),
                         alert_isResolved = False\<rparr>)))
      else (Inr (), d))"

text \<open>The \<open>data\<close> of the \<open>prisma.transaction.create\<close> call of \<open>adjustInventory\<close>;
  \<open>now\<close> is \<open>new Date()\<close>.\<close>

definition adjustmentRecord :: "int \<Rightarrow> AdjustInventoryDTO \<Rightarrow> Transaction" where
  "adjustmentRecord now data =
     (let quantity = a_quantity data
      in \<lparr>tx_id = 0,
          tx_type = ADJUST,
          tx_status = COMPLETED,
          tx_itemId = a_itemId data,
          tx_quantity = \<bar>quantity\<bar>,
          tx_fromPropertyId = (if quantity < 0 then Some (a_propertyId data) else None),
          tx_fromUnitId = (if quantity < 0 then a_unitId data else None),
          tx_fromRoomId = (if quantity < 0 then a_roomId data else None),
          tx_fromLocation = None,
          tx_toPropertyId = (if quantity > 0 then Some (a_propertyId data) else None),
          tx_toUnitId = (if quantity > 0 then a_unitId data else None),
          tx_toRoomId = (if quantity > 0 then a_roomId data else None),
          tx_toLocation = None,
          tx_reason =
            (case orNull (a_reason data) of
               Some r \<Rightarrow> Some r
             | None \<Rightarrow> Some (if quantity > 0 then ''Inventory increase''
                             else ''Inventory decrease'')),
          tx_reasonCode = a_reasonCode data,
          tx_notes = a_notes data,
          tx_stagingDesignId = None,
          tx_createdBy = a_createdBy data,
          tx_transactionDate = now,
          tx_completedAt = Some now\<rparr>)"

text \<open>The part of \<open>adjustInventory\<close> that follows the lookup or lazy creation of the
  level: the stock check, the update, the ledger record and the alert check.\<close>

definition adjustLevel :: "db \<Rightarrow> AdjustInventoryDTO \<Rightarrow> InventoryLevel \<Rightarrow> InventoryLevel result \<times> db" where
  "adjustLevel d data level =
     (let quantity = a_quantity data;
          newQuantity = level_quantityOnHand level + quantity
      in if newQuantity < 0 then (Inl InsufficientQuantity, d)
         else
           (case updateLevel d (level_id level) (noUpdate\<lparr>u_quantityOnHand := Some newQuantity\<rparr>) of
              (Inl e, d1) \<Rightarrow> (Inl e, d1)
            | (Inr updatedLevel, d1) \<Rightarrow>
                let d2 = transaction_create d1 (adjustmentRecord (clock d1) data)
                in (case checkAndCreateAlert d2 updatedLevel of
                      (Inl e, d3) \<Rightarrow> (Inl e, d3)
                    | (Inr u, d3) \<Rightarrow> (Inr updatedLevel, d3))))"

text \<open>The argument of the \<open>createLevel\<close> call of \<open>adjustInventory\<close>.\<close>

definition lazyLevelDTO :: "AdjustInventoryDTO \<Rightarrow> CreateInventoryLevelDTO" where
  "lazyLevelDTO data =
     \<lparr>c_itemId = a_itemId data,
      c_propertyId = a_propertyId data,
      c_unitId = a_unitId data,
      c_roomId = a_roomId data,
      c_locationName = a_propertyId data @ slashed (a_unitId data) @ slashed (a_roomId data),
      c_quantityOnHand = Some 0,
      c_minQuantity = None,
      c_maxQuantity = None,
      c_reorderPoint = None,
      c_binLocation = None,
      c_shelfLocation = None,
      c_notes = None\<rparr>"

definition adjustInventory :: "db \<Rightarrow> AdjustInventoryDTO \<Rightarrow> InventoryLevel result \<times> db" where
  "adjustInventory d data =
     (case getLevelByLocation d (a_itemId data) (a_propertyId data) (a_unitId data) (a_roomId data) of
        Some level \<Rightarrow> adjustLevel d data level
      | None \<Rightarrow>
          (case findItem d (a_itemId data) of
             None \<Rightarrow> (Inl ItemNotFound, d)
           | Some item \<Rightarrow>
               (case createLevel d (lazyLevelDTO data) of
                  (Inl e, d1) \<Rightarrow> (Inl e, d1)
                | (Inr level, d1) \<Rightarrow> adjustLevel d1 data level)))"

definition reserveInventory ::
  "db \<Rightarrow> string \<Rightarrow> string \<Rightarrow> int \<Rightarrow> string option \<Rightarrow> string option \<Rightarrow>
   InventoryLevel result \<times> db" where
  "reserveInventory d itemId propertyId quantity unitId roomId =
     (case getLevelByLocation d itemId propertyId unitId roomId of
        None \<Rightarrow> (Inl LevelNotFound, d)
      | Some level \<Rightarrow>
          if level_quantityAvailable level < quantity then (Inl InsufficientAvailable, d)
          else updateLevel d (level_id level)
                 (noUpdate\<lparr>u_quantityReserved := Some (level_quantityReserved level + quantity)\<rparr>))"

definition releaseReservedInventory ::
  "db \<Rightarrow> string \<Rightarrow> string \<Rightarrow> int \<Rightarrow> string option \<Rightarrow> string option \<Rightarrow>
   InventoryLevel result \<times> db" where
  "releaseReservedInventory d itemId propertyId quantity unitId roomId =
     (case getLevelByLocation d itemId propertyId unitId roomId of
        None \<Rightarrow> (Inl LevelNotFound, d)
      | Some level \<Rightarrow>
          if level_quantityReserved level < quantity then (Inl OverRelease, d)
          else updateLevel d (level_id level)
                 (noUpdate\<lparr>u_quantityReserved := Some (level_quantityReserved level - quantity)\<rparr>))"

text \<open>The decimal digits of a number inside a template string.\<close>

fun digitsOf :: "nat \<Rightarrow> nat \<Rightarrow> string" where
  "digitsOf 0 n = []"
| "digitsOf (Suc fuel) n =
     (if n < 10 then [char_of (48 + n)]
      else digitsOf fuel (n div 10) @ [char_of (48 + n mod 10)])"

definition showInt :: "int \<Rightarrow> string" where
  "showInt i = (if i < 0 then CHR ''-'' # digitsOf (Suc (nat (- i))) (nat (- i))
               else digitsOf (Suc (nat i)) (nat i))"

definition cycleCount ::
  "db \<Rightarrow> nat \<Rightarrow> int \<Rightarrow> string \<Rightarrow> string option \<Rightarrow> (InventoryLevel \<times> int) result \<times> db" where
  "cycleCount d levelId countedQuantity countedBy notes =
     (case findLevel d levelId of
        None \<Rightarrow> (Inl LevelNotFound, d)
      | Some level \<Rightarrow>
          let variance = countedQuantity - level_quantityOnHand level;
              write = (\<lambda>r. r\<lparr>level_quantityOnHand := countedQuantity,
                             level_quantityAvailable := countedQuantity - level_quantityReserved level,
                             level_lastCountedDate := Some (clock d),
                             level_lastCountedBy := Some countedBy,
                             level_notes :=
                               (case orNull notes of
                                  Some n \<Rightarrow> Some (orEmpty (level_notes level) @ [CHR 0x0A] @ n)
                                | None \<Rightarrow> level_notes level)\<rparr>);
              updatedLevel = write level;
              d1 = d\<lparr>inventoryLevel :=
                       updateFirst (\<lambda>l. level_id l = levelId) write (inventoryLevel d)\<rparr>;
              d2 = (if variance \<noteq> 0 then
                      transaction_create d1
                        \<lparr>tx_id = 0,
                         tx_type = ADJUST,
                         tx_status = COMPLETED,
                         tx_itemId = level_itemId level,
                         tx_quantity = \<bar>variance\<bar>,
                         tx_fromPropertyId =
                           (if variance < 0 then Some (level_propertyId level) else None),
                         tx_fromUnitId = (if variance < 0 then level_unitId level else None),
                         tx_fromRoomId = (if variance < 0 then level_roomId level else None),
                         tx_fromLocation = None,
                         tx_toPropertyId =
                           (if variance > 0 then Some (level_propertyId level) else None),
                         tx_toUnitId = (if variance > 0 then level_unitId level else None),
                         tx_toRoomId = (if variance > 0 then level_roomId level else None),
                         tx_toLocation = None,
                         tx_reason = Some ''Cycle count adjustment'',
                         tx_reasonCode = Some ''CYCLE_COUNT'',
                         tx_notes = Some (''Variance: '' @ showInt variance @ ''. '' @ orEmpty notes),
                         tx_stagingDesignId = None,
                         tx_createdBy = Some countedBy,
                         tx_transactionDate = clock d1,
                         tx_completedAt = Some (clock d1)\<rparr>
                    else d1)
          in (Inr (updatedLevel, variance), d2))"

section \<open>TransactionService\<close>

text \<open>\<open>a || b\<close> on optional strings, and a nullable string inside a template.\<close>

fun falsyOrStr :: "string option \<Rightarrow> string option \<Rightarrow> string option" where
  "falsyOrStr a b = (case orNull a of Some s \<Rightarrow> Some s | None \<Rightarrow> b)"

fun orDefault :: "string option \<Rightarrow> string \<Rightarrow> string" where
  "orDefault a b = (case orNull a of Some s \<Rightarrow> s | None \<Rightarrow> b)"

fun shown :: "string option \<Rightarrow> string" where
  "shown None = ''null''"
| "shown (Some s) = s"

fun lowerType :: "TransactionType \<Rightarrow> string" where
  "lowerType RECEIVE = ''receive''"
| "lowerType CONSUME = ''consume''"
| "lowerType TRANSFER = ''transfer''"
| "lowerType ADJUST = ''adjust''"
| "lowerType DAMAGE = ''damage''"
| "lowerType DISPOSE = ''dispose''"
| "lowerType ASSIGN = ''assign''"
| "lowerType UNASSIGN = ''unassign''"

text \<open>A handler awaits the level engine and drops the level it returns.\<close>

fun awaited :: "'a result \<times> db \<Rightarrow> unit result \<times> db" where
  "awaited (Inl e, d) = (Inl e, d)"
| "awaited (Inr x, d) = (Inr (), d)"

definition processReceive :: "db \<Rightarrow> Transaction \<Rightarrow> unit result \<times> db" where
  "processReceive d t =
     (case orNull (tx_toPropertyId t) of
        None \<Rightarrow> (Inl DestinationRequired, d)
      | Some toPropertyId \<Rightarrow>
          awaited (adjustInventory d
            \<lparr>a_itemId = tx_itemId t,
             a_propertyId = toPropertyId,
             a_unitId = orNull (tx_toUnitId t),
             a_roomId = orNull (tx_toRoomId t),
             a_quantity = tx_quantity t,
             a_reason = Some (orDefault (tx_reason t) ''Inventory received''),
             a_reasonCode = tx_reasonCode t,
             a_notes = tx_notes t,
             a_createdBy = None\<rparr>))"

definition processConsume :: "db \<Rightarrow> Transaction \<Rightarrow> unit result \<times> db" where
  "processConsume d t =
     (case orNull (tx_fromPropertyId t) of
        None \<Rightarrow> (Inl SourceRequired, d)
      | Some fromPropertyId \<Rightarrow>
          awaited (adjustInventory d
            \<lparr>a_itemId = tx_itemId t,
             a_propertyId = fromPropertyId,
             a_unitId = orNull (tx_fromUnitId t),
             a_roomId = orNull (tx_fromRoomId t),
             a_quantity = - tx_quantity t,
             a_reason = Some (orDefault (tx_reason t) ''Inventory consumed''),
             a_reasonCode = tx_reasonCode t,
             a_notes = tx_notes t,
             a_createdBy = None\<rparr>))"

text \<open>The arguments of the two \<open>adjustInventory\<close> calls of \<open>processTransfer\<close>: the
  decrease at the source and the increase at the destination.\<close>

definition transferSource :: "Transaction \<Rightarrow> string \<Rightarrow> AdjustInventoryDTO" where
  "transferSource t fromPropertyId =
     \<lparr>a_itemId = tx_itemId t,
      a_propertyId = fromPropertyId,
      a_unitId = orNull (tx_fromUnitId t),
      a_roomId = orNull (tx_fromRoomId t),
      a_quantity = - tx_quantity t,
      a_reason = Some (''Transfer to '' @ shown (tx_toLocation t)),
      a_reasonCode = tx_reasonCode t,
      a_notes = None,
      a_createdBy = None\<rparr>"

definition transferDestination :: "Transaction \<Rightarrow> string \<Rightarrow> AdjustInventoryDTO" where
  "transferDestination t toPropertyId =
     \<lparr>a_itemId = tx_itemId t,
      a_propertyId = toPropertyId,
      a_unitId = orNull (tx_toUnitId t),
      a_roomId = orNull (tx_toRoomId t),
      a_quantity = tx_quantity t,
      a_reason = Some (''Transfer from '' @ shown (tx_fromLocation t)),
      a_reasonCode = tx_reasonCode t,
      a_notes = None,
      a_createdBy = None\<rparr>"

definition processTransfer :: "db \<Rightarrow> Transaction \<Rightarrow> unit result \<times> db" where
  "processTransfer d t =
     (case (orNull (tx_fromPropertyId t), orNull (tx_toPropertyId t)) of
        (Some fromPropertyId, Some toPropertyId) \<Rightarrow>
          (case adjustInventory d (transferSource t fromPropertyId) of
             (Inl e, d1) \<Rightarrow> (Inl e, d1)
           | (Inr source, d1) \<Rightarrow>
               awaited (adjustInventory d1 (transferDestination t toPropertyId)))
      | _ \<Rightarrow> (Inl BothRequired, d))"

definition processAdjust :: "db \<Rightarrow> Transaction \<Rightarrow> unit result \<times> db" where
  "processAdjust d t =
     (let propertyId = falsyOrStr (tx_toPropertyId t) (tx_fromPropertyId t);
          unitId = falsyOrStr (tx_toUnitId t) (tx_fromUnitId t);
          roomId = falsyOrStr (tx_toRoomId t) (tx_fromRoomId t)
      in case orNull propertyId of
           None \<Rightarrow> (Inl PropertyRequired, d)
         | Some p \<Rightarrow>
             let quantity = (if orNull (tx_toPropertyId t) \<noteq> None then tx_quantity t
                             else - tx_quantity t)
             in awaited (adjustInventory d
                  \<lparr>a_itemId = tx_itemId t,
                   a_propertyId = p,
                   a_unitId = orNull unitId,
                   a_roomId = orNull roomId,
                   a_quantity = quantity,
                   a_reason = Some (orDefault (tx_reason t) ''Manual adjustment''),
                   a_reasonCode = tx_reasonCode t,
                   a_notes = tx_notes t,
                   a_createdBy = None\<rparr>))"

text \<open>\<open>prisma.inventoryItem.update\<close> rejects a key that selects no row.\<close>

definition processDamageOrDispose :: "db \<Rightarrow> Transaction \<Rightarrow> unit result \<times> db" where
  "processDamageOrDispose d t =
     (case orNull (tx_fromPropertyId t) of
        None \<Rightarrow> (Inl DamageSourceRequired, d)
      | Some fromPropertyId \<Rightarrow>
          (case adjustInventory d
                  \<lparr>a_itemId = tx_itemId t,
                   a_propertyId = fromPropertyId,
                   a_unitId = orNull (tx_fromUnitId t),
                   a_roomId = orNull (tx_fromRoomId t),
                   a_quantity = - tx_quantity t,
                   a_reason = Some (orDefault (tx_reason t)
                                      (''Item '' @ lowerType (tx_type t) @ ''d'')),
                   a_reasonCode = tx_reasonCode t,
                   a_notes = tx_notes t,
                   a_createdBy = None\<rparr> of
             (Inl e, d1) \<Rightarrow> (Inl e, d1)
           | (Inr level, d1) \<Rightarrow>
               if tx_type t = DAMAGE then
                 (case findItem d1 (tx_itemId t) of
                    None \<Rightarrow> (Inl RecordNotFound, d1)
                  | Some item \<Rightarrow>
                      (Inr (),
                       d1\<lparr>inventoryItem :=
                            updateFirst (\<lambda>it. item_id it = tx_itemId t)
                              (\<lambda>it. it\<lparr>item_condition := ''DAMAGED''\<rparr>) (inventoryItem d1)\<rparr>))
               else (Inr (), d1)))"

definition processAssign :: "db \<Rightarrow> Transaction \<Rightarrow> unit result \<times> db" where
  "processAssign d t =
     (case orNull (tx_stagingDesignId t) of
        None \<Rightarrow> (Inl StagingDesignRequired, d)
      | Some design \<Rightarrow>
          (case tx_fromPropertyId t of
             None \<Rightarrow> (Inl PrismaValidation, d)
           | Some fromPropertyId \<Rightarrow>
               awaited (reserveInventory d (tx_itemId t) fromPropertyId (tx_quantity t)
                          (orNull (tx_fromUnitId t)) (orNull (tx_fromRoomId t)))))"

definition processUnassign :: "db \<Rightarrow> Transaction \<Rightarrow> unit result \<times> db" where
  "processUnassign d t =
     (case tx_toPropertyId t of
        None \<Rightarrow> (Inl PrismaValidation, d)
      | Some toPropertyId \<Rightarrow>
          awaited (releaseReservedInventory d (tx_itemId t) toPropertyId (tx_quantity t)
                     (orNull (tx_toUnitId t)) (orNull (tx_toRoomId t))))"

text \<open>The \<open>switch\<close> of \<open>processTransaction\<close>.\<close>

fun dispatch :: "TransactionType \<Rightarrow> db \<Rightarrow> Transaction \<Rightarrow> unit result \<times> db" where
  "dispatch RECEIVE d t = processReceive d t"
| "dispatch CONSUME d t = processConsume d t"
| "dispatch TRANSFER d t = processTransfer d t"
| "dispatch ADJUST d t = processAdjust d t"
| "dispatch DAMAGE d t = processDamageOrDispose d t"
| "dispatch DISPOSE d t = processDamageOrDispose d t"
| "dispatch ASSIGN d t = processAssign d t"
| "dispatch UNASSIGN d t = processUnassign d t"

text \<open>The \<open>data\<close> of the two \<open>prisma.transaction.update\<close> calls of
  \<open>processTransaction\<close>: on success, and in the \<open>catch\<close> block, where \<open>t\<close> is the
  transaction as read at the start and \<open>e\<close> the error caught.\<close>

definition completedWrite :: "int \<Rightarrow> Transaction \<Rightarrow> Transaction" where
  "completedWrite now r = r\<lparr>tx_status := COMPLETED, tx_completedAt := Some now\<rparr>"

definition cancelledWrite :: "Transaction \<Rightarrow> error \<Rightarrow> Transaction \<Rightarrow> Transaction" where
  "cancelledWrite t e r =
     r\<lparr>tx_status := CANCELLED,
       tx_notes := Some (orEmpty (tx_notes t) @ [CHR 0x0A] @
                         ''Processing failed: '' @ message e)\<rparr>"

definition processTransaction :: "db \<Rightarrow> nat \<Rightarrow> bool result \<times> db" where
  "processTransaction d i =
     (case findTransaction d i of
        None \<Rightarrow> (Inl TransactionNotFound, d)
      | Some t \<Rightarrow>
          if tx_status t = COMPLETED then (Inl AlreadyCompleted, d)
          else if tx_status t \<noteq> APPROVED then (Inl MustBeApproved, d)
          else
            (case dispatch (tx_type t) d t of
               (Inr u, d1) \<Rightarrow>
                 (Inr True,
                  d1\<lparr>transaction :=
                       updateFirst (\<lambda>r. tx_id r = i) (completedWrite (clock d1))
                         (transaction d1)\<rparr>)
             | (Inl e, d1) \<Rightarrow>
                 (Inl e,
                  d1\<lparr>transaction :=
                       updateFirst (\<lambda>r. tx_id r = i) (cancelledWrite t e)
                         (transaction d1)\<rparr>)))"

section \<open>ForecastingService\<close>

text \<open>A date string \<open>YYYY-MM-DD\<close> is the number of its day; \<open>localeCompare\<close> on such
  strings is the order of the days. The predicted demands and their bounds are reals.\<close>

definition msPerDay :: int where
  "msPerDay = 86400000"

definition dayOf :: "int \<Rightarrow> int" where
  "dayOf ms = ms div msPerDay"

record ForecastPoint =
  fp_date :: int
  fp_predictedDemand :: real
  fp_lowerBound :: real
  fp_upperBound :: real
  fp_confidence :: real

record ForecastData =
  fd_forecasts :: "ForecastPoint list"
  fd_seasonal_factor :: "real option"
  fd_trend_factor :: "real option"
  fd_model_version :: "string option"

record ForecastDemandDTO =
  f_itemId :: string
  f_propertyId :: "string option"
  f_periodDays :: "int option"

record DemandForecastResult =
  r_itemId :: string
  r_propertyId :: "string option"
  r_forecasts :: "ForecastPoint list"
  r_recommendedOrder :: "int option"
  r_safetyStock :: "int option"

text \<open>The request sent to the prediction service: history, periods, item, property.
  The service is a parameter of the model; \<open>None\<close> is a call that throws.\<close>

type_synonym prophet = "(int \<times> int) list \<times> int \<times> string \<times> string option \<Rightarrow> ForecastData option"

definition getHistoricalConsumption ::
  "db \<Rightarrow> string \<Rightarrow> string option \<Rightarrow> int \<Rightarrow> (int \<times> int) list" where
  "getHistoricalConsumption d itemId propertyId days =
     (let startDate = clock d - days * msPerDay;
          transactions =
            sort_key tx_transactionDate
              (filter (\<lambda>t. tx_itemId t = itemId \<and> tx_type t = CONSUME \<and>
                            tx_status t = COMPLETED \<and> tx_transactionDate t \<ge> startDate \<and>
                            (case orNull propertyId of
                               None \<Rightarrow> True
                             | Some p \<Rightarrow> tx_fromPropertyId t = Some p))
                 (transaction d));
          initialised =
            fold (\<lambda>i m. AList.update (dayOf (clock d) - i) 0 m) [0..days - 1] [];
          dailyConsumption =
            fold (\<lambda>t m. let date = dayOf (tx_transactionDate t);
                             current = nullishOr (map_of m date) 0
                         in AList.update date (current + tx_quantity t) m)
              transactions initialised
      in sort_key fst dailyConsumption)"

definition simpleMovingAverageForecast :: "db \<Rightarrow> (int \<times> int) list \<Rightarrow> int \<Rightarrow> ForecastData" where
  "simpleMovingAverageForecast d historicalData periods =
     (let recentData = drop (length historicalData - 14) historicalData;
          avgDemand = real_of_int (sum_list (map snd recentData)) / real (length recentData);
          forecasts =
            map (\<lambda>i. \<lparr>fp_date = dayOf (clock d) + i,
                       fp_predictedDemand = avgDemand,
                       fp_lowerBound = avgDemand * (7 / 10),
                       fp_upperBound = avgDemand * (13 / 10),
                       fp_confidence = 6 / 10\<rparr>) [1..periods]
      in \<lparr>fd_forecasts = forecasts,
          fd_seasonal_factor = Some 1,
          fd_trend_factor = Some 1,
          fd_model_version = Some ''simple-ma''\<rparr>)"

definition storeForecastResults :: "db \<Rightarrow> string \<Rightarrow> string option \<Rightarrow> ForecastData \<Rightarrow> db" where
  "storeForecastResults d itemId propertyId forecastData =
     (let forecasts =
            map (\<lambda>f. \<lparr>fc_itemId = itemId,
                       fc_propertyId = orNull propertyId,
                       fc_forecastDate = clock d,
                       fc_periodStart = fp_date f * msPerDay,
                       fc_periodEnd = (fp_date f + 1) * msPerDay,
                       fc_predictedDemand = fp_predictedDemand f,
                       fc_lowerBound = fp_lowerBound f,
                       fc_upperBound = fp_upperBound f,
                       fc_confidence = fp_confidence f,
                       fc_seasonalFactor = fd_seasonal_factor forecastData,
                       fc_trendFactor = fd_trend_factor forecastData,
                       fc_modelVersion = orDefault (fd_model_version forecastData) ''prophet-v1''\<rparr>)
              (fd_forecasts forecastData);
          kept =
            filter (\<lambda>r. \<not> (fc_itemId r = itemId \<and> fc_propertyId r = orNull propertyId \<and>
                             fc_forecastDate r < clock d - 7 * msPerDay))
              (demandForecast d)
      in d\<lparr>demandForecast := kept @ forecasts\<rparr>)"

text \<open>The last step of \<open>forecastDemand\<close> is arithmetic on IEEE doubles: the mean
  \<open>avgDemand\<close> of the predicted demands, their standard deviation (\<open>calculateStdDev\<close>:
  mean, \<open>Math.pow\<close>, \<open>Math.sqrt\<close>), \<open>safetyStock = Math.ceil(stdDev * 1.65)\<close> and
  \<open>recommendedOrder = Math.ceil(avgDemand * 7 + safetyStock)\<close>. Both integers hang on
  the rounding of the doubles (the standard deviation of a flat forecast can be a rounding
  residue, which the ceiling lifts to 1) and an empty forecast makes them NaN. Exact reals
  can give other numbers, so the model does not compute them: the arithmetic is a
  parameter that takes the predicted demands to \<open>(recommendedOrder, safetyStock)\<close>, with
  \<open>None\<close> for NaN.\<close>

type_synonym reorderArithmetic = "real list \<Rightarrow> int option \<times> int option"

definition forecastDemand ::
  "reorderArithmetic \<Rightarrow> prophet \<Rightarrow> db \<Rightarrow> ForecastDemandDTO \<Rightarrow>
   DemandForecastResult result \<times> db" where
  "forecastDemand arithmetic service d data =
     (let itemId = f_itemId data;
          propertyId = f_propertyId data;
          periodDays = nullishOr (f_periodDays data) 30
      in case findItem d itemId of
           None \<Rightarrow> (Inl ItemNotFound, d)
         | Some item \<Rightarrow>
             let historicalData =
                   getHistoricalConsumption d itemId propertyId config_forecasting_historicalDays
             in if length historicalData < 7 then (Inl InsufficientHistory, d)
                else
                  let forecastData =
                        (case service (historicalData, periodDays, itemId, propertyId) of
                           Some response \<Rightarrow> response
                         | None \<Rightarrow> simpleMovingAverageForecast d historicalData periodDays);
                      d1 = storeForecastResults d itemId propertyId forecastData;
                      reorder = arithmetic (map fp_predictedDemand (fd_forecasts forecastData))
                  in (Inr \<lparr>r_itemId = itemId,
                           r_propertyId = propertyId,
                           r_forecasts = fd_forecasts forecastData,
                           r_recommendedOrder = fst reorder,
                           r_safetyStock = snd reorder\<rparr>,
                      d1))"

section \<open>The alert policy as the specification words it\<close>

text \<open>The policy of the specification, read literally: the comparisons with the maximum
  are made whenever a maximum is present.\<close>

definition evaluate_spec :: "int \<Rightarrow> int option \<Rightarrow> int option \<Rightarrow> StockAlertLevel" where
  "evaluate_spec quantity reorderPoint maxQuantity =
     (if reorderPoint = None \<or> reorderPoint = Some 0 then NORMAL
      else if of_int quantity \<le> (1 / 10 :: rat) * of_int (the reorderPoint) then CRITICAL
      else if of_int quantity \<le> (1 / 2 :: rat) * of_int (the reorderPoint) then LOW
      else if maxQuantity \<noteq> None \<and> of_int quantity \<ge> (2 :: rat) * of_int (the maxQuantity)
      then OVERSTOCK
      else if maxQuantity \<noteq> None \<and> of_int quantity \<ge> (3 / 2 :: rat) * of_int (the maxQuantity)
      then HIGH
      else NORMAL)"

text \<open>The same policy with the comparisons made only for a maximum that is present and
  not zero.\<close>

definition evaluate_nonzero_max :: "int \<Rightarrow> int option \<Rightarrow> int option \<Rightarrow> StockAlertLevel" where
  "evaluate_nonzero_max quantity reorderPoint maxQuantity =
     (if reorderPoint = None \<or> reorderPoint = Some 0 then NORMAL
      else if of_int quantity \<le> (1 / 10 :: rat) * of_int (the reorderPoint) then CRITICAL
      else if of_int quantity \<le> (1 / 2 :: rat) * of_int (the reorderPoint) then LOW
      else if maxQuantity \<noteq> None \<and> maxQuantity \<noteq> Some 0 \<and>
              of_int quantity \<ge> (2 :: rat) * of_int (the maxQuantity)
      then OVERSTOCK
      else if maxQuantity \<noteq> None \<and> maxQuantity \<noteq> Some 0 \<and>
              of_int quantity \<ge> (3 / 2 :: rat) * of_int (the maxQuantity)
      then HIGH
      else NORMAL)"

section \<open>Sequences of calls and the properties of the store\<close>

text \<open>One call of the level engine. A sequence of calls runs each call on the store the
  previous one left, also when that one threw.\<close>

datatype levelOp =
    Adjust AdjustInventoryDTO
  | Reserve string string int "string option" "string option"
  | Release string string int "string option" "string option"
  | Update nat UpdateInventoryLevelDTO
  | CycleCount nat int string "string option"

fun applyOp :: "db \<Rightarrow> levelOp \<Rightarrow> db" where
  "applyOp d (Adjust data) = snd (adjustInventory d data)"
| "applyOp d (Reserve i p q u r) = snd (reserveInventory d i p q u r)"
| "applyOp d (Release i p q u r) = snd (releaseReservedInventory d i p q u r)"
| "applyOp d (Update i data) = snd (updateLevel d i data)"
| "applyOp d (CycleCount i c by notes) = snd (cycleCount d i c by notes)"

fun runOps :: "db \<Rightarrow> levelOp list \<Rightarrow> db" where
  "runOps d [] = d"
| "runOps d (x # xs) = runOps (applyOp d x) xs"

text \<open>The calls that cannot take stock away from under a reservation: a reservation, a
  release of a quantity that is not negative, an adjustment by a delta that is not
  negative.\<close>

fun additive :: "levelOp \<Rightarrow> bool" where
  "additive (Adjust data) = (0 \<le> a_quantity data)"
| "additive (Reserve i p q u r) = True"
| "additive (Release i p q u r) = (0 \<le> q)"
| "additive (Update i data) = False"
| "additive (CycleCount i c by notes) = False"

definition availableDerived :: "db \<Rightarrow> bool" where
  "availableDerived d \<longleftrightarrow>
     list_all (\<lambda>l. level_quantityAvailable l = level_quantityOnHand l - level_quantityReserved l)
       (inventoryLevel d)"

definition reservedWithinOnHand :: "db \<Rightarrow> bool" where
  "reservedWithinOnHand d \<longleftrightarrow>
     list_all (\<lambda>l. level_quantityReserved l \<le> level_quantityOnHand l) (inventoryLevel d)"

definition onHandNonNegative :: "db \<Rightarrow> bool" where
  "onHandNonNegative d \<longleftrightarrow> list_all (\<lambda>l. 0 \<le> level_quantityOnHand l) (inventoryLevel d)"

text \<open>Primary keys of levels are unique and were drawn from the counter.\<close>

definition levelKeysUnique :: "db \<Rightarrow> bool" where
  "levelKeysUnique d \<longleftrightarrow>
     distinct (map level_id (inventoryLevel d)) \<and>
     list_all (\<lambda>l. level_id l < nextId d) (inventoryLevel d)"

definition openAlerts :: "db \<Rightarrow> string \<Rightarrow> nat \<Rightarrow> StockAlert list" where
  "openAlerts d itemId levelId =
     filter (\<lambda>a. alert_itemId a = itemId \<and> alert_levelId a = levelId \<and> \<not> alert_isResolved a)
       (stockAlert d)"

text \<open>No two open alerts share their (item, level) pair.\<close>

definition alertsDeduplicated :: "db \<Rightarrow> bool" where
  "alertsDeduplicated d \<longleftrightarrow>
     distinct (map (\<lambda>a. (alert_itemId a, alert_levelId a))
                (filter (\<lambda>a. \<not> alert_isResolved a) (stockAlert d)))"

text \<open>The write of \<open>updateLevel\<close> to the row, for the thresholds \<open>rp\<close> and \<open>mq\<close> it
  resolved.\<close>

definition levelWrite ::
  "UpdateInventoryLevelDTO \<Rightarrow> InventoryLevel \<Rightarrow> int option \<Rightarrow> int option \<Rightarrow>
   InventoryLevel \<Rightarrow> InventoryLevel" where
  "levelWrite data level rp mq r =
     (spreadUpdate data r)
       \<lparr>level_quantityAvailable :=
          nullishOr (u_quantityOnHand data) (level_quantityOnHand level) -
          nullishOr (u_quantityReserved data) (level_quantityReserved level),
        level_alertLevel :=
          calculateAlertLevel (nullishOr (u_quantityOnHand data) (level_quantityOnHand level))
            rp mq\<rparr>"

section \<open>Sample stores\<close>

definition sampleItem :: InventoryItem where
  "sampleItem =
     \<lparr>item_id = ''item-1'', item_name = ''Towel'', item_reorderPoint = Some 12,
      item_maxQuantity = None, item_condition = ''GOOD''\<rparr>"

text \<open>A level of the sample item at a property, with no unit and no room.\<close>

definition sampleLevel :: "nat \<Rightarrow> string \<Rightarrow> int \<Rightarrow> int \<Rightarrow> InventoryLevel" where
  "sampleLevel i p onHand reserved =
     \<lparr>level_id = i, level_itemId = ''item-1'', level_propertyId = p,
      level_unitId = None, level_roomId = None,
      level_locationName = p, level_locationPath = p,
      level_quantityOnHand = onHand, level_quantityReserved = reserved,
      level_quantityAvailable = onHand - reserved,
      level_minQuantity = None, level_maxQuantity = None, level_reorderPoint = None,
      level_alertLevel = NORMAL, level_binLocation = None, level_shelfLocation = None,
      level_notes = None, level_lastCountedDate = None, level_lastCountedBy = None\<rparr>"

definition sampleStore :: "InventoryLevel list \<Rightarrow> Transaction list \<Rightarrow> db" where
  "sampleStore ls ts =
     \<lparr>inventoryItem = [sampleItem], inventoryLevel = ls, transaction = ts,
      stockAlert = [], demandForecast = [], nextId = 100, clock = 8640000000000\<rparr>"

definition sampleAdjust :: "string \<Rightarrow> int \<Rightarrow> AdjustInventoryDTO" where
  "sampleAdjust p q =
     \<lparr>a_itemId = ''item-1'', a_propertyId = p, a_unitId = None, a_roomId = None,
      a_quantity = q, a_reason = None, a_reasonCode = None, a_notes = None,
      a_createdBy = None\<rparr>"

text \<open>An approved transaction of the sample item, of the given kind and quantity, from
  \<open>prop-1\<close> to \<open>prop-2\<close>, with primary key 7.\<close>

definition sampleTransaction :: "TransactionType \<Rightarrow> TransactionStatus \<Rightarrow> int \<Rightarrow> Transaction" where
  "sampleTransaction ty st q =
     \<lparr>tx_id = 7, tx_type = ty, tx_status = st, tx_itemId = ''item-1'', tx_quantity = q,
      tx_fromPropertyId = Some ''prop-1'', tx_fromUnitId = None, tx_fromRoomId = None,
      tx_fromLocation = Some ''prop-1'',
      tx_toPropertyId = Some ''prop-2'', tx_toUnitId = None, tx_toRoomId = None,
      tx_toLocation = Some ''prop-2'',
      tx_reason = None, tx_reasonCode = None, tx_notes = None, tx_stagingDesignId = None,
      tx_createdBy = None, tx_transactionDate = 8640000000000, tx_completedAt = None\<rparr>"

text \<open>A completed consumption of \<open>q\<close> units of the sample item \<open>k\<close> days before
  the clock of the sample store, and a ledger with consumption on five distinct days.\<close>

definition consumedOn :: "nat \<Rightarrow> int \<Rightarrow> Transaction" where
  "consumedOn k q =
     (sampleTransaction CONSUME COMPLETED q)
       \<lparr>tx_id := k, tx_transactionDate := 8640000000000 - int k * 86400000\<rparr>"

definition fiveDayStore :: db where
  "fiveDayStore =
     sampleStore [sampleLevel 0 ''prop-1'' 50 0]
       [consumedOn 5 2, consumedOn 4 2, consumedOn 3 2, consumedOn 2 2, consumedOn 1 2]"

definition sampleForecast :: "int \<Rightarrow> ForecastDemandDTO" where
  "sampleForecast periodDays =
     \<lparr>f_itemId = ''item-1'', f_propertyId = None, f_periodDays = Some periodDays\<rparr>"

text \<open>A prediction service that is down.\<close>

definition unreachable :: prophet where
  "unreachable request = None"

section \<open>Alert policy\<close>

lemma orNull_if: "orNull x = (if x = Some [] then None else x)"
  by (cases x) auto

text \<open>
  C5 (as the code has it). \<open>calculateAlertLevel\<close> is the total function of the
  specification, reorder-point checks first, except that the comparisons with the maximum
  are made only when the maximum is present and not zero: NORMAL when the reorder point is
  absent or zero; else CRITICAL at or below a tenth of it; else LOW at or below half of
  it; else OVERSTOCK at or above twice a present non-zero maximum; else HIGH at or above
  one and a half times it; else NORMAL. In particular \<open>(24, 12, null)\<close> is NORMAL and
  \<open>(3, 12, null)\<close> is LOW.
\<close>

theorem calculateAlertLevel_policy:
  "calculateAlertLevel q rp mq = evaluate_nonzero_max q rp mq \<and>
   calculateAlertLevel 24 (Some 12) None = NORMAL \<and>
   calculateAlertLevel 3 (Some 12) None = LOW"
proof -
  have "calculateAlertLevel q rp mq = evaluate_nonzero_max q rp mq"
    by (cases rp; cases mq)
       (auto simp: calculateAlertLevel_def evaluate_nonzero_max_def config_stockAlert_def
                   Let_def mult.commute)
  moreover have "calculateAlertLevel 24 (Some 12) None = NORMAL"
    by (simp add: calculateAlertLevel_def config_stockAlert_def)
  moreover have "calculateAlertLevel 3 (Some 12) None = LOW"
    by (simp add: calculateAlertLevel_def config_stockAlert_def)
  ultimately show ?thesis by simp
qed

theorem calculateAlertLevel_policy_witness:
  "calculateAlertLevel 30 (Some 12) (Some 10) = OVERSTOCK \<and>
   calculateAlertLevel 1 (Some 12) (Some 10) = CRITICAL"
  using calculateAlertLevel_policy [of 30 "Some 12" "Some 10"]
        calculateAlertLevel_policy [of 1 "Some 12" "Some 10"]
  by (simp add: evaluate_nonzero_max_def)

text \<open>With a maximum of zero the policy as the specification words it reports OVERSTOCK,
  the code NORMAL.\<close>

theorem calculateAlertLevel_zero_max_counterexample:
  "calculateAlertLevel 10 (Some 4) (Some 0) = NORMAL \<and>
   evaluate_spec 10 (Some 4) (Some 0) = OVERSTOCK"
  by (simp add: calculateAlertLevel_def config_stockAlert_def evaluate_spec_def)

section \<open>Location keys\<close>

text \<open>
  C9 (as the code has it). \<open>getLevelByLocation\<close> returns a stored level of the item
  whose property is exactly the one looked up and whose unit and room are exactly the
  looked-up ones after an empty-string component of the lookup has been turned into an
  absent one; it returns nothing iff no stored level is such. An absent component is no
  wildcard; an empty-string component of the lookup is taken as absent.
\<close>

theorem getLevelByLocation_key:
  "(getLevelByLocation d i p u r = None \<longleftrightarrow>
     list_all (\<lambda>l. \<not> (level_itemId l = i \<and> level_propertyId l = p \<and>
                      level_unitId l = (if u = Some [] then None else u) \<and>
                      level_roomId l = (if r = Some [] then None else r)))
       (inventoryLevel d)) \<and>
   (\<forall>l. getLevelByLocation d i p u r = Some l \<longrightarrow>
      l \<in> set (inventoryLevel d) \<and> level_itemId l = i \<and> level_propertyId l = p \<and>
      level_unitId l = (if u = Some [] then None else u) \<and>
      level_roomId l = (if r = Some [] then None else r))"
  unfolding getLevelByLocation_def
  by (auto simp: level_matches_def orNull_if find_Some_iff find_None_iff list_all_iff)

theorem getLevelByLocation_key_witness:
  "getLevelByLocation (sampleStore [sampleLevel 0 ''prop-1'' 5 0] []) ''item-1'' ''prop-1''
     None None = Some (sampleLevel 0 ''prop-1'' 5 0) \<and>
   sampleLevel 0 ''prop-1'' 5 0 \<in> set (inventoryLevel (sampleStore [sampleLevel 0 ''prop-1'' 5 0] [])) \<and>
   level_unitId (sampleLevel 0 ''prop-1'' 5 0) = None \<and>
   getLevelByLocation (sampleStore [sampleLevel 0 ''prop-1'' 5 0] []) ''item-1'' ''prop-1''
     (Some ''unit-7'') None = None"
proof -
  have a: "getLevelByLocation (sampleStore [sampleLevel 0 ''prop-1'' 5 0] []) ''item-1''
             ''prop-1'' None None = Some (sampleLevel 0 ''prop-1'' 5 0)"
    by (simp add: getLevelByLocation_def level_matches_def sampleStore_def sampleLevel_def)
  from getLevelByLocation_key
         [of "sampleStore [sampleLevel 0 ''prop-1'' 5 0] []" "''item-1''" "''prop-1''" None None] a
  have c: "sampleLevel 0 ''prop-1'' 5 0 \<in> set (inventoryLevel (sampleStore [sampleLevel 0 ''prop-1'' 5 0] [])) \<and>
           level_unitId (sampleLevel 0 ''prop-1'' 5 0) = None"
    by simp
  have b: "list_all (\<lambda>l. \<not> (level_itemId l = ''item-1'' \<and> level_propertyId l = ''prop-1'' \<and>
                      level_unitId l = (if Some ''unit-7'' = Some [] then None else Some ''unit-7'') \<and>
                      level_roomId l = (if None = Some [] then None else None)))
       (inventoryLevel (sampleStore [sampleLevel 0 ''prop-1'' 5 0] []))"
    by (simp add: sampleStore_def sampleLevel_def)
  from getLevelByLocation_key
         [of "sampleStore [sampleLevel 0 ''prop-1'' 5 0] []" "''item-1''" "''prop-1''"
             "Some ''unit-7''" None] b
  have "getLevelByLocation (sampleStore [sampleLevel 0 ''prop-1'' 5 0] []) ''item-1'' ''prop-1''
          (Some ''unit-7'') None = None"
    by blast
  with a c show ?thesis by simp
qed

text \<open>A lookup with the empty string as unit finds the level stored with no unit, and does
  not find the level stored with the empty string as unit.\<close>

theorem getLevelByLocation_empty_string_counterexample:
  "getLevelByLocation (sampleStore [sampleLevel 0 ''prop-1'' 5 0] []) ''item-1'' ''prop-1''
     (Some '''') None = Some (sampleLevel 0 ''prop-1'' 5 0) \<and>
   level_unitId (sampleLevel 0 ''prop-1'' 5 0) \<noteq> Some '''' \<and>
   getLevelByLocation
     (sampleStore [(sampleLevel 0 ''prop-1'' 5 0)\<lparr>level_unitId := Some ''''\<rparr>] [])
     ''item-1'' ''prop-1'' (Some '''') None = None"
  by (simp add: getLevelByLocation_def level_matches_def sampleStore_def sampleLevel_def)

section \<open>Case analysis of the level engine\<close>

lemma updateFirst_none: "find P xs = None \<Longrightarrow> updateFirst P f xs = xs"
  by (induction xs) (auto split: if_splits)

lemma updateFirst_length: "length (updateFirst P f xs) = length xs"
  by (induction xs) auto

lemma updateFirst_set: "find P xs = Some l \<Longrightarrow> set (updateFirst P f xs) \<subseteq> insert (f l) (set xs)"
  by (induction xs) (auto split: if_splits)

lemma updateFirst_list_all:
  "find P xs = Some l \<Longrightarrow> Q (f l) \<Longrightarrow> list_all Q xs \<Longrightarrow> list_all Q (updateFirst P f xs)"
  using updateFirst_set [of P xs l f] by (auto simp: list_all_iff)

lemma updateFirst_find:
  "find P xs = Some l \<Longrightarrow> P (f l) \<Longrightarrow> find P (updateFirst P f xs) = Some (f l)"
  by (induction xs) (auto split: if_splits)

lemma find_append_Some: "find P xs = Some l \<Longrightarrow> find P (xs @ ys) = Some l"
  by (induction xs) (auto split: if_splits)

lemma find_in_set: "find P xs = Some l \<Longrightarrow> l \<in> set xs \<and> P l"
  by (induction xs) (auto split: if_splits)

lemma updateLevel_cases:
  assumes "updateLevel d i data = (res, d')"
  shows "(\<exists>e. res = Inl e \<and> d' = d) \<or>
         (\<exists>level rp mq. findLevel d i = Some level \<and> res = Inr (levelWrite data level rp mq level) \<and>
            d' = d\<lparr>inventoryLevel :=
                     updateFirst (\<lambda>l. level_id l = i) (levelWrite data level rp mq) (inventoryLevel d)\<rparr>)"
  using assms unfolding updateLevel_def levelWrite_def
  by (auto simp: Let_def split: option.splits sum.splits)

lemma levelWrite_available:
  "level_quantityAvailable (levelWrite data level rp mq level) =
   level_quantityOnHand (levelWrite data level rp mq level) -
   level_quantityReserved (levelWrite data level rp mq level)"
  by (simp add: levelWrite_def spreadUpdate_def)

lemma levelWrite_id: "level_id (levelWrite data level rp mq r) = level_id r"
  by (simp add: levelWrite_def spreadUpdate_def)

lemma updateLevel_frame:
  assumes "updateLevel d i data = (res, d')"
  shows "transaction d' = transaction d \<and> stockAlert d' = stockAlert d \<and>
         inventoryItem d' = inventoryItem d \<and> nextId d' = nextId d \<and> clock d' = clock d \<and>
         demandForecast d' = demandForecast d \<and>
         length (inventoryLevel d') = length (inventoryLevel d)"
  using updateLevel_cases [OF assms] by (auto simp: updateFirst_length)

lemma updateLevel_available:
  assumes "updateLevel d i data = (res, d')" "availableDerived d"
  shows "availableDerived d'"
  using updateLevel_cases [OF assms(1)] assms(2)
  by (auto simp: availableDerived_def findLevel_def levelWrite_available
           intro!: updateFirst_list_all)

lemma createLevel_cases:
  assumes "createLevel d data = (res, d')"
  shows "(res = Inl ItemNotFound \<and> d' = d \<and> findItem d (c_itemId data) = None) \<or>
         (\<exists>row. res = Inr row \<and>
            d' = d\<lparr>inventoryLevel := inventoryLevel d @ [row], nextId := Suc (nextId d)\<rparr> \<and>
            level_id row = nextId d \<and>
            level_itemId row = c_itemId data \<and> level_propertyId row = c_propertyId data \<and>
            level_unitId row = c_unitId data \<and> level_roomId row = c_roomId data \<and>
            level_quantityOnHand row = nullishOr (c_quantityOnHand data) 0 \<and>
            level_quantityReserved row = 0 \<and>
            level_quantityAvailable row = nullishOr (c_quantityOnHand data) 0)"
  using assms unfolding createLevel_def
  by (auto simp: Let_def split: option.splits)

lemma checkAndCreateAlert_cases:
  assumes "checkAndCreateAlert d level = (res, d')"
  shows "d' = d \<or>
         (res = Inr () \<and> openAlerts d (level_itemId level) (level_id level) = [] \<and>
          (\<exists>a. d' = d\<lparr>stockAlert := stockAlert d @ [a], nextId := Suc (nextId d)\<rparr> \<and>
               alert_itemId a = level_itemId level \<and> alert_levelId a = level_id level \<and>
               \<not> alert_isResolved a))"
  using assms unfolding checkAndCreateAlert_def stockAlert_create_def openAlerts_def
  by (auto simp: Let_def find_None_iff filter_empty_conv split: option.splits if_splits)

lemma checkAndCreateAlert_open:
  assumes "checkAndCreateAlert d level = (Inr u, d')"
    "level_alertLevel level = CRITICAL \<or> level_alertLevel level = LOW"
  shows "openAlerts d' (level_itemId level) (level_id level) \<noteq> []"
  using assms unfolding checkAndCreateAlert_def stockAlert_create_def openAlerts_def
  by (auto simp: Let_def find_None_iff find_Some_iff filter_empty_conv split: option.splits if_splits)

lemma adjustLevel_cases:
  assumes "adjustLevel d data level = (res, d')"
  shows "(level_quantityOnHand level + a_quantity data < 0 \<and> res = Inl InsufficientQuantity \<and> d' = d) \<or>
         (0 \<le> level_quantityOnHand level + a_quantity data \<and> (\<exists>e. res = Inl e) \<and> d' = d) \<or>
         (0 \<le> level_quantityOnHand level + a_quantity data \<and>
          (\<exists>ul d1 r3. updateLevel d (level_id level)
                (noUpdate\<lparr>u_quantityOnHand := Some (level_quantityOnHand level + a_quantity data)\<rparr>) = (Inr ul, d1) \<and>
             checkAndCreateAlert (transaction_create d1 (adjustmentRecord (clock d1) data)) ul = (r3, d') \<and>
             res = (case r3 of Inl e \<Rightarrow> Inl e | Inr u \<Rightarrow> Inr ul)))"
proof (cases "level_quantityOnHand level + a_quantity data < 0")
  case True
  with assms show ?thesis by (simp add: adjustLevel_def Let_def)
next
  case False
  obtain r1 d1 where u: "updateLevel d (level_id level)
      (noUpdate\<lparr>u_quantityOnHand := Some (level_quantityOnHand level + a_quantity data)\<rparr>) = (r1, d1)"
    by (cases "updateLevel d (level_id level)
      (noUpdate\<lparr>u_quantityOnHand := Some (level_quantityOnHand level + a_quantity data)\<rparr>)")
  show ?thesis
  proof (cases r1)
    case (Inl e)
    with updateLevel_cases [OF u] have "d1 = d" by auto
    with assms False u Inl show ?thesis by (auto simp add: adjustLevel_def Let_def)
  next
    case (Inr ul)
    obtain r3 d3 where c: "checkAndCreateAlert (transaction_create d1 (adjustmentRecord (clock d1) data)) ul = (r3, d3)"
      by (cases "checkAndCreateAlert (transaction_create d1 (adjustmentRecord (clock d1) data)) ul")
    with assms False u Inr show ?thesis
      by (cases r3) (auto simp: adjustLevel_def Let_def)
  qed
qed


lemma adjustInventory_cases:
  assumes "adjustInventory d data = (res, d')"
  shows "(\<exists>level. getLevelByLocation d (a_itemId data) (a_propertyId data) (a_unitId data) (a_roomId data) = Some level \<and>
            adjustLevel d data level = (res, d')) \<or>
         (getLevelByLocation d (a_itemId data) (a_propertyId data) (a_unitId data) (a_roomId data) = None \<and>
            findItem d (a_itemId data) = None \<and> res = Inl ItemNotFound \<and> d' = d) \<or>
         (getLevelByLocation d (a_itemId data) (a_propertyId data) (a_unitId data) (a_roomId data) = None \<and>
            findItem d (a_itemId data) \<noteq> None \<and>
            (\<exists>row. createLevel d (lazyLevelDTO data) =
                     (Inr row, d\<lparr>inventoryLevel := inventoryLevel d @ [row], nextId := Suc (nextId d)\<rparr>) \<and>
               level_id row = nextId d \<and> level_quantityOnHand row = 0 \<and>
               level_quantityReserved row = 0 \<and> level_quantityAvailable row = 0 \<and>
               adjustLevel (d\<lparr>inventoryLevel := inventoryLevel d @ [row], nextId := Suc (nextId d)\<rparr>)
                 data row = (res, d')))"
proof (cases "getLevelByLocation d (a_itemId data) (a_propertyId data) (a_unitId data) (a_roomId data)")
  case (Some level)
  with assms show ?thesis by (simp add: adjustInventory_def)
next
  case None
  show ?thesis
  proof (cases "findItem d (a_itemId data)")
    case N: None
    with assms None show ?thesis by (auto simp add: adjustInventory_def)
  next
    case (Some item)
    obtain r1 d1 where c: "createLevel d (lazyLevelDTO data) = (r1, d1)"
      by (cases "createLevel d (lazyLevelDTO data)")
    from createLevel_cases [OF c] Some obtain row where
      r: "r1 = Inr row" "d1 = d\<lparr>inventoryLevel := inventoryLevel d @ [row], nextId := Suc (nextId d)\<rparr>"
        "level_id row = nextId d" "level_quantityOnHand row = 0" "level_quantityReserved row = 0"
        "level_quantityAvailable row = 0"
      by (auto simp: lazyLevelDTO_def)
    from assms None Some c r have "adjustLevel d1 data row = (res, d')"
      by (simp add: adjustInventory_def lazyLevelDTO_def)
    with None Some c r show ?thesis by auto
  qed
qed

lemma transaction_create_frame:
  "inventoryLevel (transaction_create d t) = inventoryLevel d \<and>
   stockAlert (transaction_create d t) = stockAlert d \<and>
   inventoryItem (transaction_create d t) = inventoryItem d \<and>
   clock (transaction_create d t) = clock d \<and>
   nextId (transaction_create d t) = Suc (nextId d)"
  by (simp add: transaction_create_def)

lemma checkAndCreateAlert_frame:
  assumes "checkAndCreateAlert d level = (res, d')"
  shows "inventoryLevel d' = inventoryLevel d \<and> transaction d' = transaction d \<and>
         inventoryItem d' = inventoryItem d \<and> clock d' = clock d \<and> nextId d \<le> nextId d'"
  using checkAndCreateAlert_cases [OF assms] by auto

lemma adjustLevel_levels:
  assumes "adjustLevel d data level = (res, d')"
  shows "inventoryLevel d' = inventoryLevel d \<or>
         (0 \<le> level_quantityOnHand level + a_quantity data \<and>
          (\<exists>ul d1. updateLevel d (level_id level)
                (noUpdate\<lparr>u_quantityOnHand := Some (level_quantityOnHand level + a_quantity data)\<rparr>) = (Inr ul, d1) \<and>
             inventoryLevel d' = inventoryLevel d1))"
  using adjustLevel_cases [OF assms]
  by (auto dest!: checkAndCreateAlert_frame simp: transaction_create_frame)

lemma adjustLevel_available:
  assumes "adjustLevel d data level = (res, d')" "availableDerived d"
  shows "availableDerived d'"
  using adjustLevel_levels [OF assms(1)] assms(2)
  by (auto dest: updateLevel_available simp: availableDerived_def)

lemma adjustInventory_available:
  assumes "adjustInventory d data = (res, d')" "availableDerived d"
  shows "availableDerived d'"
proof -
  have "\<And>row. level_quantityOnHand row = 0 \<Longrightarrow> level_quantityReserved row = 0 \<Longrightarrow>
     level_quantityAvailable row = 0 \<Longrightarrow>
     availableDerived (d\<lparr>inventoryLevel := inventoryLevel d @ [row], nextId := Suc (nextId d)\<rparr>)"
    using assms(2) by (simp add: availableDerived_def)
  with adjustInventory_cases [OF assms(1)] assms(2) show ?thesis
    by (auto dest: adjustLevel_available)
qed

lemma reserveInventory_cases:
  assumes "reserveInventory d i p q u r = (res, d')"
  shows "((\<exists>e. res = Inl e) \<and> d' = d) \<or>
         (\<exists>level. getLevelByLocation d i p u r = Some level \<and> q \<le> level_quantityAvailable level \<and>
            updateLevel d (level_id level)
              (noUpdate\<lparr>u_quantityReserved := Some (level_quantityReserved level + q)\<rparr>) = (res, d'))"
  using assms unfolding reserveInventory_def
  by (auto split: option.splits if_splits)

lemma releaseReservedInventory_cases:
  assumes "releaseReservedInventory d i p q u r = (res, d')"
  shows "((\<exists>e. res = Inl e) \<and> d' = d) \<or>
         (\<exists>level. getLevelByLocation d i p u r = Some level \<and> q \<le> level_quantityReserved level \<and>
            updateLevel d (level_id level)
              (noUpdate\<lparr>u_quantityReserved := Some (level_quantityReserved level - q)\<rparr>) = (res, d'))"
  using assms unfolding releaseReservedInventory_def
  by (auto split: option.splits if_splits)

lemma cycleCount_levels:
  assumes "cycleCount d i c b n = (res, d')"
  shows "((\<exists>e. res = Inl e) \<and> d' = d) \<or>
         (\<exists>level w. findLevel d i = Some level \<and>
            inventoryLevel d' = updateFirst (\<lambda>l. level_id l = i) w (inventoryLevel d) \<and>
            level_quantityOnHand (w level) = c \<and>
            level_quantityAvailable (w level) = c - level_quantityReserved level \<and>
            level_quantityReserved (w level) = level_quantityReserved level \<and>
            level_id (w level) = level_id level \<and>
            stockAlert d' = stockAlert d)"
  using assms unfolding cycleCount_def
  by (auto simp: Let_def transaction_create_def split: option.splits if_splits)

lemma cycleCount_available:
  assumes "cycleCount d i c b n = (res, d')" "availableDerived d"
  shows "availableDerived d'"
  using cycleCount_levels [OF assms(1)] assms(2)
  by (auto simp: availableDerived_def findLevel_def intro!: updateFirst_list_all)

lemma applyOp_available: "availableDerived d \<Longrightarrow> availableDerived (applyOp d x)"
proof (cases x)
  case (Adjust data)
  assume "availableDerived d"
  then show ?thesis using Adjust adjustInventory_available [of d data]
    by (cases "adjustInventory d data") auto
next
  case (Reserve i p q u r)
  assume a: "availableDerived d"
  obtain res d' where e: "reserveInventory d i p q u r = (res, d')"
    by (cases "reserveInventory d i p q u r")
  from reserveInventory_cases [OF e] a have "availableDerived d'"
    by (auto dest: updateLevel_available)
  with Reserve e show ?thesis by simp
next
  case (Release i p q u r)
  assume a: "availableDerived d"
  obtain res d' where e: "releaseReservedInventory d i p q u r = (res, d')"
    by (cases "releaseReservedInventory d i p q u r")
  from releaseReservedInventory_cases [OF e] a have "availableDerived d'"
    by (auto dest: updateLevel_available)
  with Release e show ?thesis by simp
next
  case (Update i data)
  assume a: "availableDerived d"
  then show ?thesis using Update updateLevel_available [of d i data]
    by (cases "updateLevel d i data") auto
next
  case (CycleCount i c b n)
  assume a: "availableDerived d"
  then show ?thesis using CycleCount cycleCount_available [of d i c b n]
    by (cases "cycleCount d i c b n") auto
qed

lemma runOps_available: "availableDerived d \<Longrightarrow> availableDerived (runOps d ops)"
  by (induction ops arbitrary: d) (auto simp: applyOp_available)

section \<open>Stock never negative\<close>

lemma levelWrite_onHand:
  "level_quantityOnHand (levelWrite data level rp mq level) =
     nullishOr (u_quantityOnHand data) (level_quantityOnHand level)"
  by (simp add: levelWrite_def spreadUpdate_def)

lemma levelWrite_reserved:
  "level_quantityReserved (levelWrite data level rp mq level) =
     nullishOr (u_quantityReserved data) (level_quantityReserved level)"
  by (simp add: levelWrite_def spreadUpdate_def)

lemma updateLevel_nonneg:
  assumes "updateLevel d i data = (res, d')" "onHandNonNegative d"
    "u_quantityOnHand data = Some q" "0 \<le> q"
  shows "onHandNonNegative d'"
  using updateLevel_cases [OF assms(1)] assms(2-)
  by (auto simp: onHandNonNegative_def findLevel_def levelWrite_onHand
           intro!: updateFirst_list_all)

lemma adjustLevel_nonneg:
  assumes "adjustLevel d data level = (res, d')" "onHandNonNegative d"
  shows "onHandNonNegative d'"
proof -
  from adjustLevel_levels [OF assms(1)] show ?thesis
  proof
    assume "inventoryLevel d' = inventoryLevel d"
    with assms(2) show ?thesis by (simp add: onHandNonNegative_def)
  next
    assume "0 \<le> level_quantityOnHand level + a_quantity data \<and>
      (\<exists>ul d1. updateLevel d (level_id level)
           (noUpdate\<lparr>u_quantityOnHand := Some (level_quantityOnHand level + a_quantity data)\<rparr>) = (Inr ul, d1) \<and>
         inventoryLevel d' = inventoryLevel d1)"
    then obtain ul d1 where
      p: "0 \<le> level_quantityOnHand level + a_quantity data"
      and u: "updateLevel d (level_id level)
           (noUpdate\<lparr>u_quantityOnHand := Some (level_quantityOnHand level + a_quantity data)\<rparr>) = (Inr ul, d1)"
      and e: "inventoryLevel d' = inventoryLevel d1"
      by blast
    from updateLevel_nonneg [OF u assms(2) _ p] have "onHandNonNegative d1" by simp
    with e show ?thesis by (simp add: onHandNonNegative_def)
  qed
qed

lemma adjustInventory_nonneg:
  assumes "adjustInventory d data = (res, d')" "onHandNonNegative d"
  shows "onHandNonNegative d'"
proof -
  have "\<And>row. level_quantityOnHand row = 0 \<Longrightarrow>
     onHandNonNegative (d\<lparr>inventoryLevel := inventoryLevel d @ [row], nextId := Suc (nextId d)\<rparr>)"
    using assms(2) by (simp add: onHandNonNegative_def)
  with adjustInventory_cases [OF assms(1)] assms(2) show ?thesis
    by (auto dest: adjustLevel_nonneg)
qed

lemma runOps_adjust_nonneg:
  "onHandNonNegative d \<Longrightarrow> onHandNonNegative (runOps d (map Adjust calls))"
proof (induction calls arbitrary: d)
  case Nil
  then show ?case by simp
next
  case (Cons c cs)
  have "onHandNonNegative (snd (adjustInventory d c))"
    using adjustInventory_nonneg [of d c] Cons.prems by (cases "adjustInventory d c") auto
  with Cons.IH show ?case by simp
qed

lemma adjustInventory_rejected_existing:
  assumes "getLevelByLocation d (a_itemId data) (a_propertyId data) (a_unitId data) (a_roomId data) = Some level"
    "level_quantityOnHand level + a_quantity data < 0"
  shows "adjustInventory d data = (Inl InsufficientQuantity, d)"
  using assms by (simp add: adjustInventory_def adjustLevel_def Let_def)

lemma adjustInventory_rejected_lazy:
  assumes "getLevelByLocation d (a_itemId data) (a_propertyId data) (a_unitId data) (a_roomId data) = None"
    "findItem d (a_itemId data) \<noteq> None" "a_quantity data < 0"
  shows "\<exists>row. adjustInventory d data =
            (Inl InsufficientQuantity,
             d\<lparr>inventoryLevel := inventoryLevel d @ [row], nextId := Suc (nextId d)\<rparr>) \<and>
          level_quantityOnHand row = 0 \<and> level_quantityReserved row = 0"
proof -
  obtain res d' where e: "adjustInventory d data = (res, d')"
    by (cases "adjustInventory d data")
  from adjustInventory_cases [OF e] assms obtain row where
    r: "level_quantityOnHand row = 0" "level_quantityReserved row = 0"
       "adjustLevel (d\<lparr>inventoryLevel := inventoryLevel d @ [row], nextId := Suc (nextId d)\<rparr>)
          data row = (res, d')"
    by auto
  from r(1,3) assms(3) have "res = Inl InsufficientQuantity \<and>
      d' = d\<lparr>inventoryLevel := inventoryLevel d @ [row], nextId := Suc (nextId d)\<rparr>"
    by (auto simp: adjustLevel_def Let_def)
  with e r show ?thesis by auto
qed

section \<open>Open alerts\<close>

lemma distinct_key_filter:
  "distinct (map k xs) \<Longrightarrow> length (filter (\<lambda>a. k a = v) xs) \<le> 1"
proof (induction xs)
  case Nil
  then show ?case by simp
next
  case (Cons a xs)
  show ?case
  proof (cases "k a = v")
    case True
    with Cons.prems have "\<forall>b\<in>set xs. k b \<noteq> v" by (auto simp: image_iff)
    then have "filter (\<lambda>a. k a = v) xs = []" by (simp add: filter_empty_conv)
    with True show ?thesis by simp
  next
    case False
    with Cons show ?thesis by simp
  qed
qed

lemma openAlerts_dedup:
  assumes "alertsDeduplicated d"
  shows "length (openAlerts d i l) \<le> 1"
proof -
  have "openAlerts d i l =
        filter (\<lambda>a. (alert_itemId a, alert_levelId a) = (i, l))
          (filter (\<lambda>a. \<not> alert_isResolved a) (stockAlert d))"
    by (auto simp: openAlerts_def intro: filter_cong)
  with distinct_key_filter [of "\<lambda>a. (alert_itemId a, alert_levelId a)"
         "filter (\<lambda>a. \<not> alert_isResolved a) (stockAlert d)" "(i, l)"] assms
  show ?thesis by (simp add: alertsDeduplicated_def)
qed

lemma checkAndCreateAlert_dedup:
  assumes "checkAndCreateAlert d level = (res, d')" "alertsDeduplicated d"
  shows "alertsDeduplicated d'"
proof -
  from checkAndCreateAlert_cases [OF assms(1)] show ?thesis
  proof
    assume "d' = d"
    with assms(2) show ?thesis by simp
  next
    assume "res = Inr () \<and> openAlerts d (level_itemId level) (level_id level) = [] \<and>
          (\<exists>a. d' = d\<lparr>stockAlert := stockAlert d @ [a], nextId := Suc (nextId d)\<rparr> \<and>
               alert_itemId a = level_itemId level \<and> alert_levelId a = level_id level \<and>
               \<not> alert_isResolved a)"
    then obtain a where
      o: "openAlerts d (level_itemId level) (level_id level) = []"
      and d': "d' = d\<lparr>stockAlert := stockAlert d @ [a], nextId := Suc (nextId d)\<rparr>"
      and a: "alert_itemId a = level_itemId level" "alert_levelId a = level_id level"
             "\<not> alert_isResolved a"
      by blast
    from o a have "(alert_itemId a, alert_levelId a) \<notin>
        set (map (\<lambda>a. (alert_itemId a, alert_levelId a))
               (filter (\<lambda>a. \<not> alert_isResolved a) (stockAlert d)))"
      by (auto simp: openAlerts_def filter_empty_conv)
    with assms(2) d' a show ?thesis
      by (simp add: alertsDeduplicated_def)
  qed
qed

lemma alertsDeduplicated_cong:
  "stockAlert d' = stockAlert d \<Longrightarrow> alertsDeduplicated d' = alertsDeduplicated d"
  by (simp add: alertsDeduplicated_def)

lemma adjustLevel_dedup:
  assumes "adjustLevel d data level = (res, d')" "alertsDeduplicated d"
  shows "alertsDeduplicated d'"
proof -
  have t: "\<And>d1 t. stockAlert d1 = stockAlert d \<Longrightarrow> alertsDeduplicated (transaction_create d1 t)"
    using assms(2) by (simp add: alertsDeduplicated_def transaction_create_def)
  from adjustLevel_cases [OF assms(1)] assms(2) show ?thesis
    by (auto dest!: updateLevel_frame dest: checkAndCreateAlert_dedup [OF _ t])
qed

lemma adjustInventory_dedup:
  assumes "adjustInventory d data = (res, d')" "alertsDeduplicated d"
  shows "alertsDeduplicated d'"
proof -
  have "\<And>row. alertsDeduplicated (d\<lparr>inventoryLevel := inventoryLevel d @ [row], nextId := Suc (nextId d)\<rparr>)"
    using assms(2) by (simp add: alertsDeduplicated_def)
  with adjustInventory_cases [OF assms(1)] assms(2) show ?thesis
    by (auto dest: adjustLevel_dedup)
qed

lemma adjustLevel_open:
  assumes "adjustLevel d data level = (Inr ul, d')"
    "level_alertLevel ul = CRITICAL \<or> level_alertLevel ul = LOW"
  shows "openAlerts d' (level_itemId ul) (level_id ul) \<noteq> []"
proof -
  from adjustLevel_cases [OF assms(1)] obtain ul' d1 r3 where
    c: "checkAndCreateAlert (transaction_create d1 (adjustmentRecord (clock d1) data)) ul' = (r3, d')"
    and r: "Inr ul = (case r3 of Inl e \<Rightarrow> Inl e | Inr u \<Rightarrow> Inr ul')"
    by auto
  from r obtain u where "r3 = Inr u" "ul' = ul" by (cases r3) auto
  with c assms(2) show ?thesis by (auto dest: checkAndCreateAlert_open)
qed

lemma adjustInventory_open:
  assumes "adjustInventory d data = (Inr ul, d')"
    "level_alertLevel ul = CRITICAL \<or> level_alertLevel ul = LOW"
  shows "openAlerts d' (level_itemId ul) (level_id ul) \<noteq> []"
  using adjustInventory_cases [OF assms(1)] assms(2)
  by (auto dest: adjustLevel_open)

lemma applyOp_dedup: "alertsDeduplicated d \<Longrightarrow> alertsDeduplicated (applyOp d x)"
proof (cases x)
  case (Adjust data)
  assume "alertsDeduplicated d"
  then show ?thesis using Adjust adjustInventory_dedup [of d data]
    by (cases "adjustInventory d data") auto
next
  case (Reserve i p q u r)
  assume a: "alertsDeduplicated d"
  obtain res d' where e: "reserveInventory d i p q u r = (res, d')"
    by (cases "reserveInventory d i p q u r")
  from reserveInventory_cases [OF e] have "stockAlert d' = stockAlert d"
    by (auto dest: updateLevel_frame)
  with Reserve e a show ?thesis by (simp add: alertsDeduplicated_def)
next
  case (Release i p q u r)
  assume a: "alertsDeduplicated d"
  obtain res d' where e: "releaseReservedInventory d i p q u r = (res, d')"
    by (cases "releaseReservedInventory d i p q u r")
  from releaseReservedInventory_cases [OF e] have "stockAlert d' = stockAlert d"
    by (auto dest: updateLevel_frame)
  with Release e a show ?thesis by (simp add: alertsDeduplicated_def)
next
  case (Update i data)
  assume a: "alertsDeduplicated d"
  obtain res d' where e: "updateLevel d i data = (res, d')"
    by (cases "updateLevel d i data")
  from updateLevel_frame [OF e] have "stockAlert d' = stockAlert d" by simp
  with Update e a show ?thesis by (simp add: alertsDeduplicated_def)
next
  case (CycleCount i c b n)
  assume a: "alertsDeduplicated d"
  obtain res d' where e: "cycleCount d i c b n = (res, d')"
    by (cases "cycleCount d i c b n")
  from cycleCount_levels [OF e] have "stockAlert d' = stockAlert d" by auto
  with CycleCount e a show ?thesis by (simp add: alertsDeduplicated_def)
qed

lemma runOps_dedup: "alertsDeduplicated d \<Longrightarrow> alertsDeduplicated (runOps d ops)"
  by (induction ops arbitrary: d) (auto simp: applyOp_dedup)

section \<open>Reservations and on-hand stock\<close>

lemma find_by_key:
  "distinct (map k xs) \<Longrightarrow> x \<in> set xs \<Longrightarrow> find (\<lambda>y. k y = k x) xs = Some x"
  by (induction xs) (auto simp: image_iff)

lemma findLevel_unique:
  "levelKeysUnique d \<Longrightarrow> l \<in> set (inventoryLevel d) \<Longrightarrow> findLevel d (level_id l) = Some l"
  unfolding levelKeysUnique_def findLevel_def by (simp add: find_by_key)

lemma updateFirst_map_key:
  "(\<And>r. k (f r) = k r) \<Longrightarrow> map k (updateFirst P f xs) = map k xs"
  by (induction xs) auto

lemma levelKeysUnique_keys:
  "levelKeysUnique d \<longleftrightarrow>
     distinct (map level_id (inventoryLevel d)) \<and>
     (\<forall>i\<in>set (map level_id (inventoryLevel d)). i < nextId d)"
  by (auto simp: levelKeysUnique_def list_all_iff)

lemma levelKeysUnique_mono:
  "levelKeysUnique d \<Longrightarrow> inventoryLevel d' = inventoryLevel d \<Longrightarrow> nextId d \<le> nextId d' \<Longrightarrow>
   levelKeysUnique d'"
  by (fastforce simp: levelKeysUnique_keys)

lemma updateLevel_keys:
  assumes "updateLevel d i data = (res, d')" "levelKeysUnique d"
  shows "levelKeysUnique d'"
  using updateLevel_cases [OF assms(1)] assms(2)
  by (auto simp: levelKeysUnique_keys updateFirst_map_key [of level_id, OF levelWrite_id]
           simp del: set_map)

lemma appended_keys:
  "levelKeysUnique d \<Longrightarrow> level_id row = nextId d \<Longrightarrow>
   levelKeysUnique (d\<lparr>inventoryLevel := inventoryLevel d @ [row], nextId := Suc (nextId d)\<rparr>)"
  by (fastforce simp: levelKeysUnique_keys)

lemma adjustLevel_keys:
  assumes "adjustLevel d data level = (res, d')" "levelKeysUnique d"
  shows "levelKeysUnique d'"
proof -
  from adjustLevel_cases [OF assms(1)]
  consider "d' = d"
    | ul d1 r3 where "updateLevel d (level_id level)
           (noUpdate\<lparr>u_quantityOnHand := Some (level_quantityOnHand level + a_quantity data)\<rparr>) = (Inr ul, d1)"
        "checkAndCreateAlert (transaction_create d1 (adjustmentRecord (clock d1) data)) ul = (r3, d')"
    by blast
  then show ?thesis
  proof cases
    case 1
    with assms(2) show ?thesis by simp
  next
    case 2
    from updateLevel_keys [OF 2(1) assms(2)] have k1: "levelKeysUnique d1" .
    from checkAndCreateAlert_frame [OF 2(2)]
    have "inventoryLevel d' = inventoryLevel d1" "nextId d1 \<le> nextId d'"
      by (simp_all add: transaction_create_frame)
    with k1 show ?thesis by (rule levelKeysUnique_mono)
  qed
qed

lemma adjustInventory_keys:
  assumes "adjustInventory d data = (res, d')" "levelKeysUnique d"
  shows "levelKeysUnique d'"
  using adjustInventory_cases [OF assms(1)] assms(2)
  by (auto dest: adjustLevel_keys appended_keys)

lemma updateLevel_reserved:
  assumes "updateLevel d i data = (res, d')" "reservedWithinOnHand d"
    "findLevel d i = Some level"
    "nullishOr (u_quantityReserved data) (level_quantityReserved level) \<le>
     nullishOr (u_quantityOnHand data) (level_quantityOnHand level)"
  shows "reservedWithinOnHand d'"
  using updateLevel_cases [OF assms(1)] assms(2-)
  by (auto simp: reservedWithinOnHand_def findLevel_def levelWrite_onHand levelWrite_reserved
           intro!: updateFirst_list_all)

lemma level_in_store:
  "getLevelByLocation d i p u r = Some level \<Longrightarrow> level \<in> set (inventoryLevel d)"
  by (auto simp: getLevelByLocation_def dest: find_in_set)

lemma adjustLevel_reserved:
  assumes "adjustLevel d data level = (res, d')" "reservedWithinOnHand d"
    "findLevel d (level_id level) = Some level" "level \<in> set (inventoryLevel d)"
    "0 \<le> a_quantity data"
  shows "reservedWithinOnHand d'"
proof -
  from assms(2,4) have r: "level_quantityReserved level \<le> level_quantityOnHand level"
    by (simp add: reservedWithinOnHand_def list_all_iff)
  from adjustLevel_levels [OF assms(1)] show ?thesis
  proof
    assume "inventoryLevel d' = inventoryLevel d"
    with assms(2) show ?thesis by (simp add: reservedWithinOnHand_def)
  next
    assume "0 \<le> level_quantityOnHand level + a_quantity data \<and>
      (\<exists>ul d1. updateLevel d (level_id level)
           (noUpdate\<lparr>u_quantityOnHand := Some (level_quantityOnHand level + a_quantity data)\<rparr>) = (Inr ul, d1) \<and>
         inventoryLevel d' = inventoryLevel d1)"
    then obtain ul d1 where
      u: "updateLevel d (level_id level)
           (noUpdate\<lparr>u_quantityOnHand := Some (level_quantityOnHand level + a_quantity data)\<rparr>) = (Inr ul, d1)"
      and e: "inventoryLevel d' = inventoryLevel d1"
      by blast
    from r assms(5) have "reservedWithinOnHand d1"
      by (intro updateLevel_reserved [OF u assms(2) assms(3)]) (simp add: noUpdate_def)
    with e show ?thesis by (simp add: reservedWithinOnHand_def)
  qed
qed

lemma adjustInventory_reserved:
  assumes "adjustInventory d data = (res, d')" "reservedWithinOnHand d" "levelKeysUnique d"
    "0 \<le> a_quantity data"
  shows "reservedWithinOnHand d'"
proof -
  from adjustInventory_cases [OF assms(1)]
  consider level where
      "getLevelByLocation d (a_itemId data) (a_propertyId data) (a_unitId data) (a_roomId data) = Some level"
      "adjustLevel d data level = (res, d')"
    | "d' = d"
    | row where "level_id row = nextId d" "level_quantityOnHand row = 0"
        "level_quantityReserved row = 0"
        "adjustLevel (d\<lparr>inventoryLevel := inventoryLevel d @ [row], nextId := Suc (nextId d)\<rparr>)
           data row = (res, d')"
    by blast
  then show ?thesis
  proof cases
    case 1
    from level_in_store [OF 1(1)] have m: "level \<in> set (inventoryLevel d)" .
    from adjustLevel_reserved [OF 1(2) assms(2) findLevel_unique [OF assms(3) m] m assms(4)]
    show ?thesis .
  next
    case 2
    with assms(2) show ?thesis by simp
  next
    case 3
    let ?d0 = "d\<lparr>inventoryLevel := inventoryLevel d @ [row], nextId := Suc (nextId d)\<rparr>"
    have k: "levelKeysUnique ?d0" using assms(3) 3(1) by (rule appended_keys)
    have m: "row \<in> set (inventoryLevel ?d0)" by simp
    have r: "reservedWithinOnHand ?d0" using assms(2) 3(2,3) by (simp add: reservedWithinOnHand_def)
    from adjustLevel_reserved [OF 3(4) r findLevel_unique [OF k m] m assms(4)]
    show ?thesis .
  qed
qed

lemma reserveInventory_reserved:
  assumes "reserveInventory d i p q u r = (res, d')" "reservedWithinOnHand d" "levelKeysUnique d"
    "availableDerived d"
  shows "reservedWithinOnHand d'"
proof -
  from reserveInventory_cases [OF assms(1)]
  consider "d' = d"
    | level where "getLevelByLocation d i p u r = Some level" "q \<le> level_quantityAvailable level"
        "updateLevel d (level_id level)
              (noUpdate\<lparr>u_quantityReserved := Some (level_quantityReserved level + q)\<rparr>) = (res, d')"
    by blast
  then show ?thesis
  proof cases
    case 1
    with assms(2) show ?thesis by simp
  next
    case 2
    from level_in_store [OF 2(1)] have m: "level \<in> set (inventoryLevel d)" .
    with assms(4) have "level_quantityAvailable level =
        level_quantityOnHand level - level_quantityReserved level"
      by (simp add: availableDerived_def list_all_iff)
    with 2(2) show ?thesis
      by (intro updateLevel_reserved [OF 2(3) assms(2) findLevel_unique [OF assms(3) m]])
         (simp add: noUpdate_def)
  qed
qed

lemma releaseReservedInventory_reserved:
  assumes "releaseReservedInventory d i p q u r = (res, d')" "reservedWithinOnHand d"
    "levelKeysUnique d" "0 \<le> q"
  shows "reservedWithinOnHand d'"
proof -
  from releaseReservedInventory_cases [OF assms(1)]
  consider "d' = d"
    | level where "getLevelByLocation d i p u r = Some level"
        "updateLevel d (level_id level)
              (noUpdate\<lparr>u_quantityReserved := Some (level_quantityReserved level - q)\<rparr>) = (res, d')"
    by blast
  then show ?thesis
  proof cases
    case 1
    with assms(2) show ?thesis by simp
  next
    case 2
    from level_in_store [OF 2(1)] have m: "level \<in> set (inventoryLevel d)" .
    with assms(2) have "level_quantityReserved level \<le> level_quantityOnHand level"
      by (simp add: reservedWithinOnHand_def list_all_iff)
    with assms(4) show ?thesis
      by (intro updateLevel_reserved [OF 2(2) assms(2) findLevel_unique [OF assms(3) m]])
         (simp add: noUpdate_def)
  qed
qed

lemma applyOp_additive:
  assumes "additive x" "levelKeysUnique d" "availableDerived d" "reservedWithinOnHand d"
  shows "levelKeysUnique (applyOp d x) \<and> reservedWithinOnHand (applyOp d x)"
proof (cases x)
  case (Adjust data)
  obtain res d' where e: "adjustInventory d data = (res, d')"
    by (cases "adjustInventory d data")
  from assms(1) Adjust have "0 \<le> a_quantity data" by simp
  from adjustInventory_reserved [OF e assms(4) assms(2) this] adjustInventory_keys [OF e assms(2)]
    Adjust e show ?thesis by simp
next
  case (Reserve i p q u r)
  obtain res d' where e: "reserveInventory d i p q u r = (res, d')"
    by (cases "reserveInventory d i p q u r")
  from reserveInventory_cases [OF e] assms(2) have "levelKeysUnique d'"
    by (auto dest: updateLevel_keys)
  with reserveInventory_reserved [OF e assms(4) assms(2) assms(3)] Reserve e
  show ?thesis by simp
next
  case (Release i p q u r)
  obtain res d' where e: "releaseReservedInventory d i p q u r = (res, d')"
    by (cases "releaseReservedInventory d i p q u r")
  from assms(1) Release have q: "0 \<le> q" by simp
  from releaseReservedInventory_cases [OF e] assms(2) have "levelKeysUnique d'"
    by (auto dest: updateLevel_keys)
  with releaseReservedInventory_reserved [OF e assms(4) assms(2) q] Release e
  show ?thesis by simp
next
  case (Update i data)
  with assms(1) show ?thesis by simp
next
  case (CycleCount i c b n)
  with assms(1) show ?thesis by simp
qed

lemma runOps_additive:
  "list_all additive ops \<Longrightarrow> levelKeysUnique d \<Longrightarrow> availableDerived d \<Longrightarrow>
   reservedWithinOnHand d \<Longrightarrow> reservedWithinOnHand (runOps d ops)"
proof (induction ops arbitrary: d)
  case Nil
  then show ?case by simp
next
  case (Cons x xs)
  from Cons.prems have a: "additive x" "list_all additive xs" by simp_all
  from applyOp_additive [OF a(1) Cons.prems(2,3,4)] applyOp_available [OF Cons.prems(3)]
  show ?case using Cons.IH [OF a(2)] by simp
qed

lemmas engine_defs =
  adjustInventory_def adjustLevel_def getLevelByLocation_def level_matches_def findItem_def
  findLevel_def createLevel_def lazyLevelDTO_def updateLevel_def thresholdOf_def
  spreadUpdate_def noUpdate_def calculateAlertLevel_def config_stockAlert_def
  transaction_create_def adjustmentRecord_def checkAndCreateAlert_def stockAlert_create_def
  buildLocationPath_def reserveInventory_def releaseReservedInventory_def
  sampleStore_def sampleLevel_def sampleItem_def sampleAdjust_def Let_def

section \<open>Properties of the level engine\<close>

text \<open>
  C1 (as the code has it). After any sequence of \<open>adjustInventory\<close>,
  \<open>reserveInventory\<close>, \<open>releaseReservedInventory\<close>, \<open>updateLevel\<close> and
  \<open>cycleCount\<close> calls, every level has
  \<open>quantityAvailable = quantityOnHand - quantityReserved\<close>. The bound
  \<open>quantityReserved \<le> quantityOnHand\<close> is kept by reservations, by releases of a
  non-negative quantity and by adjustments with a non-negative delta (in a store whose
  level keys are unique); the code has no check of it in negative adjustments,
  \<open>updateLevel\<close> or \<open>cycleCount\<close>.
\<close>

theorem level_invariants:
  assumes "availableDerived d"
  shows "availableDerived (runOps d ops) \<and>
         (levelKeysUnique d \<and> reservedWithinOnHand d \<and> list_all additive ops \<longrightarrow>
            reservedWithinOnHand (runOps d ops))"
  using assms runOps_available [of d ops] runOps_additive [of ops d] by blast

theorem level_invariants_witness:
  "availableDerived
     (runOps (sampleStore [sampleLevel 0 ''prop-1'' 10 0] [])
        [Reserve ''item-1'' ''prop-1'' 4 None None, Adjust (sampleAdjust ''prop-1'' 3),
         Release ''item-1'' ''prop-1'' 1 None None, CycleCount 0 2 ''ana'' None]) \<and>
   reservedWithinOnHand
     (runOps (sampleStore [sampleLevel 0 ''prop-1'' 10 0] [])
        [Reserve ''item-1'' ''prop-1'' 4 None None, Adjust (sampleAdjust ''prop-1'' 3),
         Release ''item-1'' ''prop-1'' 1 None None])"
proof -
  have a: "availableDerived (sampleStore [sampleLevel 0 ''prop-1'' 10 0] [])"
    by (simp add: availableDerived_def sampleStore_def sampleLevel_def)
  have k: "levelKeysUnique (sampleStore [sampleLevel 0 ''prop-1'' 10 0] [])"
    by (simp add: levelKeysUnique_def sampleStore_def sampleLevel_def)
  have r: "reservedWithinOnHand (sampleStore [sampleLevel 0 ''prop-1'' 10 0] [])"
    by (simp add: reservedWithinOnHand_def sampleStore_def sampleLevel_def)
  have s: "list_all additive
        [Reserve ''item-1'' ''prop-1'' 4 None None, Adjust (sampleAdjust ''prop-1'' 3),
         Release ''item-1'' ''prop-1'' 1 None None]"
    by (simp add: sampleAdjust_def)
  from level_invariants [OF a, of "[Reserve ''item-1'' ''prop-1'' 4 None None,
         Adjust (sampleAdjust ''prop-1'' 3), Release ''item-1'' ''prop-1'' 1 None None,
         CycleCount 0 2 ''ana'' None]"]
       level_invariants [OF a, of "[Reserve ''item-1'' ''prop-1'' 4 None None,
         Adjust (sampleAdjust ''prop-1'' 3), Release ''item-1'' ''prop-1'' 1 None None]"]
       k r s
  show ?thesis by blast
qed

text \<open>From the empty store: receive 10, reserve 8, take away 5. The level is left with 5 on
  hand and 8 reserved. A cycle count of 2 on a level with 4 reserved, and an update that
  sets the reservation above the stock, do the same.\<close>

theorem level_invariants_counterexample:
  "\<not> reservedWithinOnHand
       (runOps (sampleStore [] [])
          [Adjust (sampleAdjust ''prop-1'' 10), Reserve ''item-1'' ''prop-1'' 8 None None,
           Adjust (sampleAdjust ''prop-1'' (- 5))]) \<and>
   \<not> reservedWithinOnHand
       (runOps (sampleStore [sampleLevel 0 ''prop-1'' 10 4] []) [CycleCount 0 2 ''ana'' None]) \<and>
   \<not> reservedWithinOnHand
       (runOps (sampleStore [sampleLevel 0 ''prop-1'' 10 4] [])
          [Update 0 (noUpdate\<lparr>u_quantityReserved := Some 11\<rparr>)])"
  by (simp add: engine_defs reservedWithinOnHand_def cycleCount_def)

text \<open>
  C4 (as the code has it). An \<open>adjustInventory\<close> call whose delta would make the
  on-hand quantity negative fails with the insufficient-stock error. When the level
  exists, nothing at all is changed. When no level exists for the location (and the item
  does), the level is first created lazily with zero quantity and then the call is
  rejected: the new empty level stays, no other level is touched, and no transaction
  record and no alert is written. Over all sequences of adjust calls, on-hand quantities
  that are not negative stay not negative.
\<close>

theorem adjustInventory_insufficient_stock:
  "(getLevelByLocation d (a_itemId data) (a_propertyId data) (a_unitId data) (a_roomId data)
      = Some level \<and> level_quantityOnHand level + a_quantity data < 0 \<longrightarrow>
      adjustInventory d data = (Inl InsufficientQuantity, d)) \<and>
   (getLevelByLocation d (a_itemId data) (a_propertyId data) (a_unitId data) (a_roomId data)
      = None \<and> findItem d (a_itemId data) \<noteq> None \<and> a_quantity data < 0 \<longrightarrow>
      (\<exists>row. adjustInventory d data =
                (Inl InsufficientQuantity,
                 d\<lparr>inventoryLevel := inventoryLevel d @ [row], nextId := Suc (nextId d)\<rparr>) \<and>
             level_quantityOnHand row = 0 \<and> level_quantityReserved row = 0)) \<and>
   (onHandNonNegative d \<longrightarrow> onHandNonNegative (runOps d (map Adjust calls)))"
  using adjustInventory_rejected_existing [of d data level]
        adjustInventory_rejected_lazy [of d data]
        runOps_adjust_nonneg [of d calls]
  by blast

theorem adjustInventory_insufficient_stock_witness:
  "adjustInventory (sampleStore [sampleLevel 0 ''prop-1'' 5 0] []) (sampleAdjust ''prop-1'' (- 7))
     = (Inl InsufficientQuantity, sampleStore [sampleLevel 0 ''prop-1'' 5 0] []) \<and>
   fst (adjustInventory (sampleStore [sampleLevel 0 ''prop-1'' 5 0] [])
          (sampleAdjust ''prop-2'' (- 7))) = Inl InsufficientQuantity \<and>
   onHandNonNegative
     (runOps (sampleStore [sampleLevel 0 ''prop-1'' 5 0] [])
        (map Adjust [sampleAdjust ''prop-1'' 3, sampleAdjust ''prop-1'' (- 10),
                     sampleAdjust ''prop-1'' (- 2)]))"
proof -
  let ?S = "sampleStore [sampleLevel 0 ''prop-1'' 5 0] []"
  have a: "getLevelByLocation ?S (a_itemId (sampleAdjust ''prop-1'' (- 7)))
             (a_propertyId (sampleAdjust ''prop-1'' (- 7))) (a_unitId (sampleAdjust ''prop-1'' (- 7)))
             (a_roomId (sampleAdjust ''prop-1'' (- 7))) = Some (sampleLevel 0 ''prop-1'' 5 0) \<and>
           level_quantityOnHand (sampleLevel 0 ''prop-1'' 5 0) +
             a_quantity (sampleAdjust ''prop-1'' (- 7)) < 0"
    by (simp add: engine_defs)
  have b: "getLevelByLocation ?S (a_itemId (sampleAdjust ''prop-2'' (- 7)))
             (a_propertyId (sampleAdjust ''prop-2'' (- 7))) (a_unitId (sampleAdjust ''prop-2'' (- 7)))
             (a_roomId (sampleAdjust ''prop-2'' (- 7))) = None \<and>
           findItem ?S (a_itemId (sampleAdjust ''prop-2'' (- 7))) \<noteq> None \<and>
           a_quantity (sampleAdjust ''prop-2'' (- 7)) < 0"
    by (simp add: engine_defs)
  have c: "onHandNonNegative ?S"
    by (simp add: onHandNonNegative_def sampleStore_def sampleLevel_def)
  from adjustInventory_insufficient_stock
         [of ?S "sampleAdjust ''prop-1'' (- 7)" "sampleLevel 0 ''prop-1'' 5 0"
             "[sampleAdjust ''prop-1'' 3, sampleAdjust ''prop-1'' (- 10),
               sampleAdjust ''prop-1'' (- 2)]"] a c
  have 1: "adjustInventory ?S (sampleAdjust ''prop-1'' (- 7)) = (Inl InsufficientQuantity, ?S)"
    and 3: "onHandNonNegative
     (runOps ?S (map Adjust [sampleAdjust ''prop-1'' 3, sampleAdjust ''prop-1'' (- 10),
                     sampleAdjust ''prop-1'' (- 2)]))"
    by blast+
  from adjustInventory_insufficient_stock
         [of ?S "sampleAdjust ''prop-2'' (- 7)" "sampleLevel 0 ''prop-1'' 5 0" "[]"] b
  have 2: "fst (adjustInventory ?S (sampleAdjust ''prop-2'' (- 7))) = Inl InsufficientQuantity"
    by auto
  from 1 2 3 show ?thesis by blast
qed

text \<open>A rejected decrease at a location that has no level yet leaves a new level behind.\<close>

theorem adjustInventory_insufficient_stock_counterexample:
  "fst (adjustInventory (sampleStore [] []) (sampleAdjust ''prop-2'' (- 1))) =
     Inl InsufficientQuantity \<and>
   inventoryLevel (sampleStore [] []) = [] \<and>
   length (inventoryLevel (snd (adjustInventory (sampleStore [] [])
                                  (sampleAdjust ''prop-2'' (- 1))))) = 1"
  by (simp add: engine_defs)

text \<open>
  C6. Alert creation is idempotent. In a store where no two open alerts share their
  (item, level) pair, e.g. one with no alerts, this stays so after any sequence of calls
  of the level engine: at most one open alert per pair at any time. A successful
  \<open>adjustInventory\<close> that leaves the level CRITICAL or LOW leaves exactly one open
  alert for that level, however many such adjustments came before.
\<close>

theorem alert_idempotence:
  assumes "alertsDeduplicated d"
  shows "alertsDeduplicated (runOps d ops) \<and>
         length (openAlerts (runOps d ops) i l) \<le> 1 \<and>
         (\<forall>level d'. adjustInventory (runOps d ops) data = (Inr level, d') \<and>
              (level_alertLevel level = CRITICAL \<or> level_alertLevel level = LOW) \<longrightarrow>
              length (openAlerts d' (level_itemId level) (level_id level)) = 1)"
proof -
  from assms have r: "alertsDeduplicated (runOps d ops)" by (rule runOps_dedup)
  have "length (openAlerts d' (level_itemId level) (level_id level)) = 1"
    if e: "adjustInventory (runOps d ops) data = (Inr level, d')"
    and c: "level_alertLevel level = CRITICAL \<or> level_alertLevel level = LOW"
    for level d'
  proof -
    from adjustInventory_dedup [OF e r] have "alertsDeduplicated d'" .
    from openAlerts_dedup [OF this, of "level_itemId level" "level_id level"]
         adjustInventory_open [OF e c]
    show ?thesis by (cases "openAlerts d' (level_itemId level) (level_id level)") auto
  qed
  with r openAlerts_dedup [OF r, of i l] show ?thesis by blast
qed

theorem alert_idempotence_witness:
  "length (openAlerts
     (snd (adjustInventory
        (runOps (sampleStore [sampleLevel 0 ''prop-1'' 2 0] [])
           [Adjust (sampleAdjust ''prop-1'' (- 1))])
        (sampleAdjust ''prop-1'' (- 1)))) ''item-1'' 0) = 1"
proof -
  let ?S = "sampleStore [sampleLevel 0 ''prop-1'' 2 0] []"
  have a: "alertsDeduplicated ?S"
    by (simp add: alertsDeduplicated_def sampleStore_def)
  have "\<exists>level d'. adjustInventory (runOps ?S [Adjust (sampleAdjust ''prop-1'' (- 1))])
            (sampleAdjust ''prop-1'' (- 1)) = (Inr level, d') \<and>
          level_alertLevel level = CRITICAL \<and> level_itemId level = ''item-1'' \<and>
          level_id level = 0"
    by (simp add: engine_defs)
  then obtain level d' where
    e: "adjustInventory (runOps ?S [Adjust (sampleAdjust ''prop-1'' (- 1))])
            (sampleAdjust ''prop-1'' (- 1)) = (Inr level, d')"
    and c: "level_alertLevel level = CRITICAL" "level_itemId level = ''item-1''"
           "level_id level = 0"
    by blast
  from alert_idempotence [OF a, of "[Adjust (sampleAdjust ''prop-1'' (- 1))]" "''item-1''" 0
         "sampleAdjust ''prop-1'' (- 1)"] e c
  have "length (openAlerts d' ''item-1'' 0) = 1" by auto
  with e show ?thesis by simp
qed

section \<open>The ledger only grows\<close>


lemma adjustLevel_ledger:
  assumes "adjustLevel d data level = (res, d')"
  shows "((\<exists>e. res = Inl e) \<and> transaction d' = transaction d) \<or>
         (\<exists>n c. transaction d' =
            transaction d @ [(adjustmentRecord c data)\<lparr>tx_id := n, tx_transactionDate := c\<rparr>])"
proof -
  from adjustLevel_cases [OF assms]
  consider "(\<exists>e. res = Inl e) \<and> d' = d"
    | ul d1 r3 where "updateLevel d (level_id level)
           (noUpdate\<lparr>u_quantityOnHand := Some (level_quantityOnHand level + a_quantity data)\<rparr>) = (Inr ul, d1)"
        "checkAndCreateAlert (transaction_create d1 (adjustmentRecord (clock d1) data)) ul = (r3, d')"
    by blast
  then show ?thesis
  proof cases
    case 1
    then show ?thesis by auto
  next
    case 2
    from updateLevel_frame [OF 2(1)] checkAndCreateAlert_frame [OF 2(2)]
    have "transaction d' = transaction d @
        [(adjustmentRecord (clock d1) data)\<lparr>tx_id := nextId d1, tx_transactionDate := clock d1\<rparr>]"
      by (simp add: transaction_create_def)
    then show ?thesis by blast
  qed
qed

lemma adjustInventory_ledger:
  assumes "adjustInventory d data = (res, d')"
  shows "((\<exists>e. res = Inl e) \<and> transaction d' = transaction d) \<or>
         (\<exists>n c. transaction d' =
            transaction d @ [(adjustmentRecord c data)\<lparr>tx_id := n, tx_transactionDate := c\<rparr>])"
  using adjustInventory_cases [OF assms]
proof (elim disjE exE conjE)
  fix level
  assume "adjustLevel d data level = (res, d')"
  from adjustLevel_ledger [OF this] show ?thesis .
next
  assume "res = Inl ItemNotFound" "d' = d"
  then show ?thesis by simp
next
  fix row
  assume "adjustLevel (d\<lparr>inventoryLevel := inventoryLevel d @ [row], nextId := Suc (nextId d)\<rparr>)
            data row = (res, d')"
  from adjustLevel_ledger [OF this] show ?thesis by simp
qed

lemma adjustInventory_record:
  assumes "adjustInventory d data = (Inr level, d')"
  shows "\<exists>n c. transaction d' =
            transaction d @ [(adjustmentRecord c data)\<lparr>tx_id := n, tx_transactionDate := c\<rparr>]"
  using adjustInventory_ledger [OF assms] by auto

lemma adjustInventory_appends:
  assumes "adjustInventory d data = (res, d')"
  shows "\<exists>ys. transaction d' = transaction d @ ys"
  using adjustInventory_ledger [OF assms] by auto

lemma awaited_Inr: "awaited x = (Inr u, d1) \<Longrightarrow> \<exists>l. x = (Inr l, d1)"
  by (cases x rule: awaited.cases) auto

lemma awaited_Inl: "awaited x = (Inl e, d1) \<Longrightarrow> x = (Inl e, d1)"
  by (cases x rule: awaited.cases) auto

lemma awaited_snd: "snd (awaited x) = snd x"
  by (cases x rule: awaited.cases) auto

lemma awaited_appends:
  "awaited (adjustInventory d data) = (res, d') \<Longrightarrow> \<exists>ys. transaction d' = transaction d @ ys"
  using adjustInventory_appends [of d data] awaited_snd [of "adjustInventory d data"]
  by (cases "adjustInventory d data") auto

lemma processTransfer_appends:
  assumes "processTransfer d t = (res, d')"
  shows "\<exists>ys. transaction d' = transaction d @ ys"
proof (cases "orNull (tx_fromPropertyId t)")
  case None
  with assms show ?thesis by (simp add: processTransfer_def)
next
  case (Some fp)
  show ?thesis
  proof (cases "orNull (tx_toPropertyId t)")
    case None
    with assms Some show ?thesis by (simp add: processTransfer_def)
  next
    case S2: (Some tp)
    obtain r1 d1 where a: "adjustInventory d (transferSource t fp) = (r1, d1)"
      by (cases "adjustInventory d (transferSource t fp)")
    from adjustInventory_appends [OF a] obtain ys where y: "transaction d1 = transaction d @ ys" ..
    show ?thesis
    proof (cases r1)
      case (Inl e)
      with assms Some S2 a y show ?thesis by (auto simp: processTransfer_def)
    next
      case (Inr l)
      with assms Some S2 a have "awaited (adjustInventory d1 (transferDestination t tp)) = (res, d')"
        by (simp add: processTransfer_def)
      from awaited_appends [OF this] y show ?thesis by auto
    qed
  qed
qed

lemma processDamageOrDispose_appends:
  assumes "processDamageOrDispose d t = (res, d')"
  shows "\<exists>ys. transaction d' = transaction d @ ys"
proof (cases "orNull (tx_fromPropertyId t)")
  case None
  with assms show ?thesis by (simp add: processDamageOrDispose_def)
next
  case (Some fp)
  let ?a = "\<lparr>a_itemId = tx_itemId t, a_propertyId = fp, a_unitId = orNull (tx_fromUnitId t),
             a_roomId = orNull (tx_fromRoomId t), a_quantity = - tx_quantity t,
             a_reason = Some (orDefault (tx_reason t) (''Item '' @ lowerType (tx_type t) @ ''d'')),
             a_reasonCode = tx_reasonCode t, a_notes = tx_notes t, a_createdBy = None\<rparr>"
  obtain r1 d1 where a: "adjustInventory d ?a = (r1, d1)"
    by (cases "adjustInventory d ?a")
  from adjustInventory_appends [OF a] obtain ys where y: "transaction d1 = transaction d @ ys" ..
  from assms Some a y show ?thesis
    by (auto simp: processDamageOrDispose_def split: sum.splits if_splits option.splits)
qed

lemma dispatch_appends:
  assumes "dispatch ty d t = (res, d')"
  shows "\<exists>ys. transaction d' = transaction d @ ys"
proof (cases ty)
  case RECEIVE
  with assms show ?thesis
    by (auto simp: processReceive_def split: option.splits dest: awaited_appends)
next
  case CONSUME
  with assms show ?thesis
    by (auto simp: processConsume_def split: option.splits dest: awaited_appends)
next
  case TRANSFER
  with assms show ?thesis by (auto dest: processTransfer_appends)
next
  case ADJUST
  with assms show ?thesis
    by (auto simp: processAdjust_def Let_def split: option.splits dest: awaited_appends)
next
  case DAMAGE
  with assms show ?thesis by (auto dest: processDamageOrDispose_appends)
next
  case DISPOSE
  with assms show ?thesis by (auto dest: processDamageOrDispose_appends)
next
  case ASSIGN
  from assms ASSIGN show ?thesis
    by (auto simp: processAssign_def split: option.splits
             dest!: reserveInventory_cases updateLevel_frame
             elim!: awaited.elims)
next
  case UNASSIGN
  from assms UNASSIGN show ?thesis
    by (auto simp: processUnassign_def split: option.splits
             dest!: releaseReservedInventory_cases updateLevel_frame
             elim!: awaited.elims)
qed

section \<open>Processing a transaction\<close>

lemma processTransaction_guard:
  assumes "findTransaction d i = Some t" "tx_status t \<noteq> APPROVED"
  shows "processTransaction d i =
           (Inl (if tx_status t = COMPLETED then AlreadyCompleted else MustBeApproved), d)"
  using assms by (simp add: processTransaction_def)

lemma processTransaction_run:
  assumes "findTransaction d i = Some t" "tx_status t = APPROVED"
    "dispatch (tx_type t) d t = (r, d1)"
  shows "processTransaction d i =
     (case r of
        Inr u \<Rightarrow> (Inr True,
                  d1\<lparr>transaction := updateFirst (\<lambda>r. tx_id r = i) (completedWrite (clock d1))
                                       (transaction d1)\<rparr>)
      | Inl e \<Rightarrow> (Inl e,
                  d1\<lparr>transaction := updateFirst (\<lambda>r. tx_id r = i) (cancelledWrite t e)
                                       (transaction d1)\<rparr>))"
  using assms
  by (cases r) (simp_all add: processTransaction_def)

lemma processTransaction_success:
  assumes "processTransaction d i = (Inr b, d')"
  shows "\<exists>t u d1. findTransaction d i = Some t \<and> tx_status t = APPROVED \<and>
           dispatch (tx_type t) d t = (Inr u, d1) \<and>
           d' = d1\<lparr>transaction := updateFirst (\<lambda>r. tx_id r = i) (completedWrite (clock d1))
                                      (transaction d1)\<rparr>"
proof (cases "findTransaction d i")
  case None
  with assms show ?thesis by (simp add: processTransaction_def)
next
  case (Some t)
  show ?thesis
  proof (cases "tx_status t = APPROVED")
    case False
    from processTransaction_guard [OF Some False] assms show ?thesis by simp
  next
    case True
    obtain r d1 where e: "dispatch (tx_type t) d t = (r, d1)"
      by (cases "dispatch (tx_type t) d t")
    from processTransaction_run [OF Some True e] assms Some True e show ?thesis
      by (cases r) auto
  qed
qed

lemma stored_after_dispatch:
  assumes "findTransaction d i = Some t" "dispatch ty d t0 = (r, d1)"
  shows "findTransaction d1 i = Some t"
  using assms dispatch_appends [OF assms(2)]
  by (auto simp: findTransaction_def find_append_Some)

lemma processTransaction_once:
  assumes "processTransaction d i = (Inr b, d')"
  shows "processTransaction d' i = (Inl AlreadyCompleted, d')"
proof -
  from processTransaction_success [OF assms] obtain t u d1 where
    f: "findTransaction d i = Some t" and e: "dispatch (tx_type t) d t = (Inr u, d1)"
    and d': "d' = d1\<lparr>transaction := updateFirst (\<lambda>r. tx_id r = i) (completedWrite (clock d1))
                                      (transaction d1)\<rparr>"
    by blast
  from stored_after_dispatch [OF f e] have f1: "find (\<lambda>r. tx_id r = i) (transaction d1) = Some t"
    by (simp add: findTransaction_def)
  from find_in_set [OF f1] have "tx_id (completedWrite (clock d1) t) = i"
    by (simp add: completedWrite_def)
  from updateFirst_find [OF f1, of "completedWrite (clock d1)", OF this] d'
  have "findTransaction d' i = Some (completedWrite (clock d1) t)"
    by (simp add: findTransaction_def)
  from processTransaction_guard [OF this] show ?thesis by (simp add: completedWrite_def)
qed

lemma dispatch_success_count:
  assumes "dispatch ty d t = (Inr u, d1)"
  shows "length (transaction d1) = length (transaction d) +
           (case ty of TRANSFER \<Rightarrow> 2 | ASSIGN \<Rightarrow> 0 | UNASSIGN \<Rightarrow> 0 | _ \<Rightarrow> 1)"
proof (cases ty)
  case RECEIVE
  with assms show ?thesis
    by (auto simp: processReceive_def split: option.splits
             dest!: awaited_Inr adjustInventory_record)
next
  case CONSUME
  with assms show ?thesis
    by (auto simp: processConsume_def split: option.splits
             dest!: awaited_Inr adjustInventory_record)
next
  case TRANSFER
  with assms have p: "processTransfer d t = (Inr u, d1)" by simp
  then obtain fp tp where o: "orNull (tx_fromPropertyId t) = Some fp"
      "orNull (tx_toPropertyId t) = Some tp"
    by (cases "orNull (tx_fromPropertyId t)"; cases "orNull (tx_toPropertyId t)")
       (auto simp: processTransfer_def)
  obtain r0 d0 where a: "adjustInventory d (transferSource t fp) = (r0, d0)"
    by (cases "adjustInventory d (transferSource t fp)")
  with p o obtain src where s: "r0 = Inr src"
    by (cases r0) (auto simp: processTransfer_def)
  with p o a have "awaited (adjustInventory d0 (transferDestination t tp)) = (Inr u, d1)"
    by (simp add: processTransfer_def)
  from awaited_Inr [OF this] obtain dst where
    b: "adjustInventory d0 (transferDestination t tp) = (Inr dst, d1)" ..
  from adjustInventory_record [OF b] adjustInventory_record [OF a [unfolded s]] TRANSFER
  show ?thesis by auto
next
  case ADJUST
  with assms show ?thesis
    by (auto simp: processAdjust_def Let_def split: option.splits
             dest!: awaited_Inr adjustInventory_record)
next
  case DAMAGE
  with assms show ?thesis
    by (auto simp: processDamageOrDispose_def split: option.splits sum.splits if_splits prod.splits
             dest!: adjustInventory_record)
next
  case DISPOSE
  with assms show ?thesis
    by (auto simp: processDamageOrDispose_def split: option.splits sum.splits if_splits prod.splits
             dest!: adjustInventory_record)
next
  case ASSIGN
  with assms show ?thesis
    by (auto simp: processAssign_def split: option.splits
             dest!: awaited_Inr reserveInventory_cases updateLevel_frame)
next
  case UNASSIGN
  with assms show ?thesis
    by (auto simp: processUnassign_def split: option.splits
             dest!: awaited_Inr releaseReservedInventory_cases updateLevel_frame)
qed

lemma processTransaction_count:
  assumes "findTransaction d i = Some t" "processTransaction d i = (Inr b, d')"
  shows "length (transaction d') = length (transaction d) +
           (case tx_type t of TRANSFER \<Rightarrow> 2 | ASSIGN \<Rightarrow> 0 | UNASSIGN \<Rightarrow> 0 | _ \<Rightarrow> 1)"
  using processTransaction_success [OF assms(2)] assms(1)
  by (auto simp: updateFirst_length dest!: dispatch_success_count)

lemma adjustmentRecord_fields:
  "tx_type ((adjustmentRecord c data)\<lparr>tx_id := n, tx_transactionDate := c\<rparr>) = ADJUST \<and>
   tx_status ((adjustmentRecord c data)\<lparr>tx_id := n, tx_transactionDate := c\<rparr>) = COMPLETED \<and>
   tx_itemId ((adjustmentRecord c data)\<lparr>tx_id := n, tx_transactionDate := c\<rparr>) = a_itemId data \<and>
   tx_quantity ((adjustmentRecord c data)\<lparr>tx_id := n, tx_transactionDate := c\<rparr>) = \<bar>a_quantity data\<bar>"
  by (simp add: adjustmentRecord_def Let_def)

lemma adjustmentRecord_to:
  "0 < a_quantity data \<Longrightarrow>
   tx_toPropertyId ((adjustmentRecord c data)\<lparr>tx_id := n, tx_transactionDate := c\<rparr>) = Some (a_propertyId data) \<and>
   tx_toUnitId ((adjustmentRecord c data)\<lparr>tx_id := n, tx_transactionDate := c\<rparr>) = a_unitId data \<and>
   tx_toRoomId ((adjustmentRecord c data)\<lparr>tx_id := n, tx_transactionDate := c\<rparr>) = a_roomId data \<and>
   tx_fromPropertyId ((adjustmentRecord c data)\<lparr>tx_id := n, tx_transactionDate := c\<rparr>) = None \<and>
   tx_fromUnitId ((adjustmentRecord c data)\<lparr>tx_id := n, tx_transactionDate := c\<rparr>) = None \<and>
   tx_fromRoomId ((adjustmentRecord c data)\<lparr>tx_id := n, tx_transactionDate := c\<rparr>) = None"
  by (simp add: adjustmentRecord_def Let_def)

lemma adjustmentRecord_from:
  "a_quantity data < 0 \<Longrightarrow>
   tx_fromPropertyId ((adjustmentRecord c data)\<lparr>tx_id := n, tx_transactionDate := c\<rparr>) = Some (a_propertyId data) \<and>
   tx_fromUnitId ((adjustmentRecord c data)\<lparr>tx_id := n, tx_transactionDate := c\<rparr>) = a_unitId data \<and>
   tx_fromRoomId ((adjustmentRecord c data)\<lparr>tx_id := n, tx_transactionDate := c\<rparr>) = a_roomId data \<and>
   tx_toPropertyId ((adjustmentRecord c data)\<lparr>tx_id := n, tx_transactionDate := c\<rparr>) = None \<and>
   tx_toUnitId ((adjustmentRecord c data)\<lparr>tx_id := n, tx_transactionDate := c\<rparr>) = None \<and>
   tx_toRoomId ((adjustmentRecord c data)\<lparr>tx_id := n, tx_transactionDate := c\<rparr>) = None"
  by (simp add: adjustmentRecord_def Let_def)

section \<open>A transfer whose second leg fails\<close>









lemmas ledger_defs =
  processTransaction_def findTransaction_def processReceive_def processConsume_def
  processTransfer_def transferSource_def transferDestination_def completedWrite_def
  cancelledWrite_def sampleTransaction_def

section \<open>Properties of the transaction ledger\<close>




text \<open>Why the \<open>TypeError\<close> is set apart: in a store that holds levels of an item whose row
  is missing (the foreign key of the schema rules it out), the destination leg writes its
  increment and its record and only then fails, in the alert check. The transaction is
  CANCELLED although both legs are applied.\<close>

lemma transfer_alert_failure_example:
  "fst (processTransaction
          ((sampleStore
              [(sampleLevel 0 ''prop-1'' 10 0)
                 \<lparr>level_reorderPoint := Some 2, level_maxQuantity := Some 100\<rparr>,
               (sampleLevel 1 ''prop-2'' 0 0)
                 \<lparr>level_reorderPoint := Some 12, level_maxQuantity := Some 100\<rparr>]
              [sampleTransaction TRANSFER APPROVED 5])\<lparr>inventoryItem := []\<rparr>) 7) = Inl TypeError \<and>
   map level_quantityOnHand
     (inventoryLevel (snd (processTransaction
          ((sampleStore
              [(sampleLevel 0 ''prop-1'' 10 0)
                 \<lparr>level_reorderPoint := Some 2, level_maxQuantity := Some 100\<rparr>,
               (sampleLevel 1 ''prop-2'' 0 0)
                 \<lparr>level_reorderPoint := Some 12, level_maxQuantity := Some 100\<rparr>]
              [sampleTransaction TRANSFER APPROVED 5])\<lparr>inventoryItem := []\<rparr>) 7))) = [5, 5] \<and>
   map tx_status
     (transaction (snd (processTransaction
          ((sampleStore
              [(sampleLevel 0 ''prop-1'' 10 0)
                 \<lparr>level_reorderPoint := Some 2, level_maxQuantity := Some 100\<rparr>,
               (sampleLevel 1 ''prop-2'' 0 0)
                 \<lparr>level_reorderPoint := Some 12, level_maxQuantity := Some 100\<rparr>]
              [sampleTransaction TRANSFER APPROVED 5])\<lparr>inventoryItem := []\<rparr>) 7))) =
     [CANCELLED, COMPLETED, COMPLETED]"
  by (simp add: engine_defs ledger_defs)

text \<open>
  C3. \<open>processTransaction\<close> applies the level effects at most once per transaction: on
  a COMPLETED transaction it fails with the already-completed error, on any other status
  than APPROVED it fails, and in both cases the store, hence every level, is unchanged;
  after a successful run the transaction is COMPLETED, so processing it again hits the
  first of these failures.
\<close>

theorem processTransaction_at_most_once:
  "(findTransaction d i = Some t \<and> tx_status t = COMPLETED \<longrightarrow>
      processTransaction d i = (Inl AlreadyCompleted, d)) \<and>
   (findTransaction d i = Some t \<and> tx_status t \<noteq> APPROVED \<and> tx_status t \<noteq> COMPLETED \<longrightarrow>
      processTransaction d i = (Inl MustBeApproved, d)) \<and>
   (processTransaction d i = (Inr b, d') \<longrightarrow>
      processTransaction d' i = (Inl AlreadyCompleted, d'))"
  using processTransaction_guard [of d i t] processTransaction_once [of d i b d']
  by auto

theorem processTransaction_at_most_once_witness:
  "processTransaction (sampleStore [sampleLevel 0 ''prop-1'' 10 0]
      [sampleTransaction CONSUME COMPLETED 5]) 7 =
     (Inl AlreadyCompleted,
      sampleStore [sampleLevel 0 ''prop-1'' 10 0] [sampleTransaction CONSUME COMPLETED 5]) \<and>
   processTransaction (sampleStore [sampleLevel 0 ''prop-1'' 10 0]
      [sampleTransaction CONSUME PENDING 5]) 7 =
     (Inl MustBeApproved,
      sampleStore [sampleLevel 0 ''prop-1'' 10 0] [sampleTransaction CONSUME PENDING 5]) \<and>
   fst (processTransaction
      (snd (processTransaction (sampleStore [sampleLevel 0 ''prop-1'' 10 0]
         [sampleTransaction CONSUME APPROVED 5]) 7)) 7) = Inl AlreadyCompleted"
proof -
  let ?L = "[sampleLevel 0 ''prop-1'' 10 0]"
  have a: "findTransaction (sampleStore ?L [sampleTransaction CONSUME COMPLETED 5]) 7 =
             Some (sampleTransaction CONSUME COMPLETED 5) \<and>
           tx_status (sampleTransaction CONSUME COMPLETED 5) = COMPLETED"
    by (simp add: findTransaction_def sampleStore_def sampleTransaction_def)
  have b: "findTransaction (sampleStore ?L [sampleTransaction CONSUME PENDING 5]) 7 =
             Some (sampleTransaction CONSUME PENDING 5) \<and>
           tx_status (sampleTransaction CONSUME PENDING 5) \<noteq> APPROVED \<and>
           tx_status (sampleTransaction CONSUME PENDING 5) \<noteq> COMPLETED"
    by (simp add: findTransaction_def sampleStore_def sampleTransaction_def)
  have "\<exists>d'. processTransaction (sampleStore ?L [sampleTransaction CONSUME APPROVED 5]) 7 =
            (Inr True, d')"
    by (simp add: engine_defs ledger_defs)
  then obtain d' where
    c: "processTransaction (sampleStore ?L [sampleTransaction CONSUME APPROVED 5]) 7 =
            (Inr True, d')" ..
  from processTransaction_at_most_once
         [of "sampleStore ?L [sampleTransaction CONSUME COMPLETED 5]" 7
             "sampleTransaction CONSUME COMPLETED 5"] a
  have 1: "processTransaction (sampleStore ?L [sampleTransaction CONSUME COMPLETED 5]) 7 =
     (Inl AlreadyCompleted, sampleStore ?L [sampleTransaction CONSUME COMPLETED 5])"
    by blast
  from processTransaction_at_most_once
         [of "sampleStore ?L [sampleTransaction CONSUME PENDING 5]" 7
             "sampleTransaction CONSUME PENDING 5"] b
  have 2: "processTransaction (sampleStore ?L [sampleTransaction CONSUME PENDING 5]) 7 =
     (Inl MustBeApproved, sampleStore ?L [sampleTransaction CONSUME PENDING 5])"
    by blast
  from processTransaction_at_most_once
         [of "sampleStore ?L [sampleTransaction CONSUME APPROVED 5]" 7 _ True d'] c
  have 3: "processTransaction d' 7 = (Inl AlreadyCompleted, d')" by blast
  from 1 2 3 c show ?thesis by simp
qed

text \<open>
  C10. Every successful \<open>adjustInventory\<close> call appends one COMPLETED ADJUST record to
  the ledger, with the absolute value of the delta as its quantity and the location on
  the to-side for a positive delta, on the from-side for a negative one. The handlers of
  RECEIVE, CONSUME, DAMAGE and DISPOSE call it once and that of TRANSFER twice, so a
  successful \<open>processTransaction\<close> leaves the ledger one record longer for the former and
  two records longer for a TRANSFER: two records after one RECEIVE, three after one
  TRANSFER.
\<close>

theorem adjustInventory_ledger_record:
  "(adjustInventory d data = (Inr level, d') \<longrightarrow>
      (\<exists>r. transaction d' = transaction d @ [r] \<and>
           tx_type r = ADJUST \<and> tx_status r = COMPLETED \<and> tx_itemId r = a_itemId data \<and>
           tx_quantity r = \<bar>a_quantity data\<bar> \<and>
           (0 < a_quantity data \<longrightarrow>
              tx_toPropertyId r = Some (a_propertyId data) \<and> tx_toUnitId r = a_unitId data \<and>
              tx_toRoomId r = a_roomId data \<and> tx_fromPropertyId r = None \<and>
              tx_fromUnitId r = None \<and> tx_fromRoomId r = None) \<and>
           (a_quantity data < 0 \<longrightarrow>
              tx_fromPropertyId r = Some (a_propertyId data) \<and>
              tx_fromUnitId r = a_unitId data \<and> tx_fromRoomId r = a_roomId data \<and>
              tx_toPropertyId r = None \<and> tx_toUnitId r = None \<and> tx_toRoomId r = None))) \<and>
   (findTransaction s i = Some t \<and> processTransaction s i = (Inr b, s') \<longrightarrow>
      (tx_type t = RECEIVE \<or> tx_type t = CONSUME \<or> tx_type t = DAMAGE \<or> tx_type t = DISPOSE \<longrightarrow>
         length (transaction s') = length (transaction s) + 1) \<and>
      (tx_type t = TRANSFER \<longrightarrow> length (transaction s') = length (transaction s) + 2))"
proof -
  have 1: "\<exists>r. transaction d' = transaction d @ [r] \<and>
           tx_type r = ADJUST \<and> tx_status r = COMPLETED \<and> tx_itemId r = a_itemId data \<and>
           tx_quantity r = \<bar>a_quantity data\<bar> \<and>
           (0 < a_quantity data \<longrightarrow>
              tx_toPropertyId r = Some (a_propertyId data) \<and> tx_toUnitId r = a_unitId data \<and>
              tx_toRoomId r = a_roomId data \<and> tx_fromPropertyId r = None \<and>
              tx_fromUnitId r = None \<and> tx_fromRoomId r = None) \<and>
           (a_quantity data < 0 \<longrightarrow>
              tx_fromPropertyId r = Some (a_propertyId data) \<and>
              tx_fromUnitId r = a_unitId data \<and> tx_fromRoomId r = a_roomId data \<and>
              tx_toPropertyId r = None \<and> tx_toUnitId r = None \<and> tx_toRoomId r = None)"
    if e: "adjustInventory d data = (Inr level, d')"
  proof -
    from adjustInventory_record [OF e] obtain n c where
      "transaction d' = transaction d @
         [(adjustmentRecord c data)\<lparr>tx_id := n, tx_transactionDate := c\<rparr>]"
      by blast
    with adjustmentRecord_fields [where c = c and data = data and n = n]
         adjustmentRecord_to [where c = c and data = data and n = n]
         adjustmentRecord_from [where c = c and data = data and n = n]
    show ?thesis by blast
  qed
  have 2: "(tx_type t = RECEIVE \<or> tx_type t = CONSUME \<or> tx_type t = DAMAGE \<or> tx_type t = DISPOSE \<longrightarrow>
         length (transaction s') = length (transaction s) + 1) \<and>
      (tx_type t = TRANSFER \<longrightarrow> length (transaction s') = length (transaction s) + 2)"
    if "findTransaction s i = Some t" "processTransaction s i = (Inr b, s')"
    using processTransaction_count [OF that] by auto
  from 1 2 show ?thesis by blast
qed

theorem adjustInventory_ledger_record_witness:
  "length (transaction (snd (adjustInventory (sampleStore [sampleLevel 0 ''prop-1'' 10 0] [])
                               (sampleAdjust ''prop-1'' (- 3))))) = 1 \<and>
   length (transaction (snd (processTransaction
      (sampleStore [sampleLevel 0 ''prop-1'' 10 0] [sampleTransaction RECEIVE APPROVED 5]) 7))) = 2 \<and>
   length (transaction (snd (processTransaction
      (sampleStore [sampleLevel 0 ''prop-1'' 10 0] [sampleTransaction TRANSFER APPROVED 5]) 7))) = 3"
proof -
  let ?L = "[sampleLevel 0 ''prop-1'' 10 0]"
  have "\<exists>level d'. adjustInventory (sampleStore ?L []) (sampleAdjust ''prop-1'' (- 3)) =
          (Inr level, d')"
    by (simp add: engine_defs)
  then obtain level d' where
    a: "adjustInventory (sampleStore ?L []) (sampleAdjust ''prop-1'' (- 3)) = (Inr level, d')"
    by blast
  have f: "findTransaction (sampleStore ?L [sampleTransaction RECEIVE APPROVED 5]) 7 =
             Some (sampleTransaction RECEIVE APPROVED 5)"
          "findTransaction (sampleStore ?L [sampleTransaction TRANSFER APPROVED 5]) 7 =
             Some (sampleTransaction TRANSFER APPROVED 5)"
    by (simp_all add: findTransaction_def sampleStore_def sampleTransaction_def)
  have "\<exists>s'. processTransaction (sampleStore ?L [sampleTransaction RECEIVE APPROVED 5]) 7 =
          (Inr True, s')"
    by (simp add: engine_defs ledger_defs)
  then obtain s1 where
    r: "processTransaction (sampleStore ?L [sampleTransaction RECEIVE APPROVED 5]) 7 =
          (Inr True, s1)" ..
  have "\<exists>s'. processTransaction (sampleStore ?L [sampleTransaction TRANSFER APPROVED 5]) 7 =
          (Inr True, s')"
    by (simp add: engine_defs ledger_defs)
  then obtain s2 where
    t: "processTransaction (sampleStore ?L [sampleTransaction TRANSFER APPROVED 5]) 7 =
          (Inr True, s2)" ..
  from adjustInventory_ledger_record
         [of "sampleStore ?L []" "sampleAdjust ''prop-1'' (- 3)" level d'
             "sampleStore ?L [sampleTransaction RECEIVE APPROVED 5]" 7
             "sampleTransaction RECEIVE APPROVED 5" True s1] a f(1) r
  have 1: "length (transaction d') = 1" "length (transaction s1) = 2"
    by (auto simp: sampleStore_def sampleTransaction_def)
  from adjustInventory_ledger_record
         [of "sampleStore ?L []" "sampleAdjust ''prop-1'' (- 3)" level d'
             "sampleStore ?L [sampleTransaction TRANSFER APPROVED 5]" 7
             "sampleTransaction TRANSFER APPROVED 5" True s2] f(2) t
  have 2: "length (transaction s2) = 3"
    by (auto simp: sampleStore_def sampleTransaction_def)
  from 1 2 a r t show ?thesis by simp
qed

section \<open>The historical series\<close>

lemma update_length_ge: "length al \<le> length (AList.update k v al)"
proof -
  have "length (map fst al) \<le> length (map fst (AList.update k v al))"
    by (simp only: update_keys split: if_split) simp
  then show ?thesis by simp
qed

lemma fold_update_length_ge:
  "length m \<le> length (fold (\<lambda>t m. AList.update (key t) (val t m) m) ts m)"
proof (induction ts arbitrary: m)
  case Nil
  then show ?case by simp
next
  case (Cons t ts)
  have "length m \<le> length (AList.update (key t) (val t m) m)" by (rule update_length_ge)
  also have "\<dots> \<le> length (fold (\<lambda>t m. AList.update (key t) (val t m) m) ts
                          (AList.update (key t) (val t m) m))"
    by (rule Cons.IH)
  finally show ?case by simp
qed

lemma fold_update_keys:
  "distinct (map fst m) \<Longrightarrow>
   distinct (map fst (fold (\<lambda>i m. AList.update (key i) v m) ks m)) \<and>
   set (map fst (fold (\<lambda>i m. AList.update (key i) v m) ks m)) = set (map fst m) \<union> key ` set ks"
proof (induction ks arbitrary: m)
  case Nil
  then show ?case by simp
next
  case (Cons i ks)
  from Cons.prems have d: "distinct (map fst (AList.update (key i) v m))"
    by (rule distinct_update)
  have s: "set (map fst (AList.update (key i) v m)) = insert (key i) (set (map fst m))"
    using dom_update [of "key i" v m] by simp
  from Cons.IH [OF d] s show ?case by auto
qed

lemma initialised_length:
  "length (fold (\<lambda>i m. AList.update (c - i) (0::int) m) [0..days - 1] []) = nat days"
proof -
  let ?m = "fold (\<lambda>i m. AList.update (c - i) (0::int) m) [0..days - 1] []"
  have ds: "distinct (map fst ?m) \<and>
            set (map fst ?m) = set (map fst []) \<union> (\<lambda>i. c - i) ` set [0..days - 1]"
    using fold_update_keys [where key = "\<lambda>i. c - i" and v = "0::int" and m = "[]"
                              and ks = "[0..days - 1]"]
    by (simp only: list.map distinct.simps)
  have "length ?m = length (map fst ?m)" by simp
  also have "\<dots> = card (set (map fst ?m))" using ds distinct_card [of "map fst ?m"] by metis
  also have "\<dots> = card ((\<lambda>i. c - i) ` set [0..days - 1])" using ds by simp
  also have "\<dots> = card (set [0..days - 1])" by (rule card_image) (simp add: inj_on_def)
  also have "\<dots> = nat days" by simp
  finally show ?thesis .
qed

lemma history_length:
  "nat days \<le> length (getHistoricalConsumption d itemId propertyId days)"
proof -
  let ?init = "fold (\<lambda>i m. AList.update (dayOf (clock d) - i) (0::int) m) [0..days - 1] []"
  have "nat days = length ?init" by (simp only: initialised_length)
  also have "\<dots> \<le> length (fold (\<lambda>t m. AList.update (dayOf (tx_transactionDate t))
                 (nullishOr (map_of m (dayOf (tx_transactionDate t))) 0 + tx_quantity t) m) ts ?init)"
    for ts :: "Transaction list"
    by (rule fold_update_length_ge)
  finally show ?thesis
    by (simp add: getHistoricalConsumption_def Let_def)
qed

lemma history_ninety:
  "90 \<le> length (getHistoricalConsumption d itemId propertyId config_forecasting_historicalDays)"
  using history_length [of config_forecasting_historicalDays d itemId propertyId]
  by (simp add: config_forecasting_historicalDays_def)

lemma forecastDemand_not_insufficient:
  "fst (forecastDemand arithmetic service d data) \<noteq> Inl InsufficientHistory"
  using history_ninety [of d "f_itemId data" "f_propertyId data"]
  by (auto simp: forecastDemand_def Let_def split: option.splits)

section \<open>Properties of the forecast adapter\<close>

lemma recent_fourteen:
  "length (drop (length (getHistoricalConsumption d i p config_forecasting_historicalDays) - 14)
             (getHistoricalConsumption d i p config_forecasting_historicalDays)) = 14"
  using history_ninety [of d i p] by simp

lemma forecastDemand_fallback_value:
  assumes "findItem d (f_itemId data) = Some item"
    "service (getHistoricalConsumption d (f_itemId data) (f_propertyId data)
                config_forecasting_historicalDays,
              nullishOr (f_periodDays data) 30, f_itemId data, f_propertyId data) = None"
  shows "fst (forecastDemand arithmetic service d data) = Inr (res :: DemandForecastResult) \<Longrightarrow>
         r_forecasts res =
           fd_forecasts (simpleMovingAverageForecast d
              (getHistoricalConsumption d (f_itemId data) (f_propertyId data)
                 config_forecasting_historicalDays) (nullishOr (f_periodDays data) 30))"
    and "\<exists>res. fst (forecastDemand arithmetic service d data) = Inr res"
    and "snd (forecastDemand arithmetic service d data) =
           storeForecastResults d (f_itemId data) (f_propertyId data)
             (simpleMovingAverageForecast d
                (getHistoricalConsumption d (f_itemId data) (f_propertyId data)
                   config_forecasting_historicalDays) (nullishOr (f_periodDays data) 30))"
  using assms history_ninety [of d "f_itemId data" "f_propertyId data"]
  by (auto simp: forecastDemand_def Let_def)

text \<open>
  C8. Whenever the call of the prediction service fails (and the item exists),
  \<open>forecastDemand\<close> returns the moving-average forecast: one point for each of the
  \<open>periodDays\<close> horizon days, each with \<open>predictedDemand\<close> the average of the last
  14 days of the historical series, \<open>lowerBound\<close> 0.7 times and \<open>upperBound\<close> 1.3
  times that average and \<open>confidence\<close> 0.6; the same numbers are what it stores, one row
  per horizon day, under the model version \<open>simple-ma\<close>.
\<close>

theorem forecastDemand_fallback:
  assumes "findItem d (f_itemId data) = Some item"
    "service (getHistoricalConsumption d (f_itemId data) (f_propertyId data)
                config_forecasting_historicalDays,
              nullishOr (f_periodDays data) 30, f_itemId data, f_propertyId data) = None"
    "avg = real_of_int (sum_list (map snd
             (drop (length (getHistoricalConsumption d (f_itemId data) (f_propertyId data)
                              config_forecasting_historicalDays) - 14)
                (getHistoricalConsumption d (f_itemId data) (f_propertyId data)
                   config_forecasting_historicalDays)))) / 14"
  shows "\<exists>res kept rows.
           forecastDemand arithmetic service d data = (Inr res, d\<lparr>demandForecast := kept @ rows\<rparr>) \<and>
           length (r_forecasts res) = nat (nullishOr (f_periodDays data) 30) \<and>
           list_all (\<lambda>f. fp_predictedDemand f = avg \<and> fp_lowerBound f = avg * (7 / 10) \<and>
                         fp_upperBound f = avg * (13 / 10) \<and> fp_confidence f = 6 / 10)
             (r_forecasts res) \<and>
           length rows = nat (nullishOr (f_periodDays data) 30) \<and>
           list_all (\<lambda>r. fc_modelVersion r = ''simple-ma'' \<and> fc_predictedDemand r = avg \<and>
                         fc_lowerBound r = avg * (7 / 10) \<and> fc_upperBound r = avg * (13 / 10) \<and>
                         fc_confidence r = 6 / 10)
             rows"
proof -
  let ?h = "getHistoricalConsumption d (f_itemId data) (f_propertyId data)
              config_forecasting_historicalDays"
  let ?p = "nullishOr (f_periodDays data) 30"
  let ?fd = "simpleMovingAverageForecast d ?h ?p"
  from forecastDemand_fallback_value(2) [where arithmetic = arithmetic and service = service and d = d
      and data = data, OF assms(1,2)] obtain res where
    r: "fst (forecastDemand arithmetic service d data) = Inr res" ..
  from forecastDemand_fallback_value(1) [where arithmetic = arithmetic and service = service and d = d
      and data = data, OF assms(1,2) r]
  have f: "r_forecasts res = fd_forecasts ?fd" .
  define mean where
    "mean = real_of_int (sum_list (map snd (drop (length ?h - 14) ?h))) /
            real (length (drop (length ?h - 14) ?h))"
  have a: "mean = avg"
    using assms(3) recent_fourteen [of d "f_itemId data" "f_propertyId data"]
    by (simp add: mean_def del: length_drop)
  have l: "length (fd_forecasts ?fd) = nat ?p"
    by (simp add: simpleMovingAverageForecast_def Let_def)
  have v: "list_all (\<lambda>f. fp_predictedDemand f = avg \<and> fp_lowerBound f = avg * (7 / 10) \<and>
                         fp_upperBound f = avg * (13 / 10) \<and> fp_confidence f = 6 / 10)
             (fd_forecasts ?fd)"
    unfolding simpleMovingAverageForecast_def Let_def mean_def [symmetric] a
    by (simp add: list_all_iff)
  let ?rows = "map (\<lambda>f. \<lparr>fc_itemId = f_itemId data,
                       fc_propertyId = orNull (f_propertyId data),
                       fc_forecastDate = clock d,
                       fc_periodStart = fp_date f * msPerDay,
                       fc_periodEnd = (fp_date f + 1) * msPerDay,
                       fc_predictedDemand = fp_predictedDemand f,
                       fc_lowerBound = fp_lowerBound f,
                       fc_upperBound = fp_upperBound f,
                       fc_confidence = fp_confidence f,
                       fc_seasonalFactor = fd_seasonal_factor ?fd,
                       fc_trendFactor = fd_trend_factor ?fd,
                       fc_modelVersion = orDefault (fd_model_version ?fd) ''prophet-v1''\<rparr>)
              (fd_forecasts ?fd)"
  let ?kept = "filter (\<lambda>r. \<not> (fc_itemId r = f_itemId data \<and>
                               fc_propertyId r = orNull (f_propertyId data) \<and>
                               fc_forecastDate r < clock d - 7 * msPerDay))
                 (demandForecast d)"
  have s: "snd (forecastDemand arithmetic service d data) = d\<lparr>demandForecast := ?kept @ ?rows\<rparr>"
    using forecastDemand_fallback_value(3) [where arithmetic = arithmetic and service = service and d = d
      and data = data, OF assms(1,2)]
    by (simp add: storeForecastResults_def Let_def)
  have m: "fd_model_version ?fd = Some ''simple-ma''"
    by (simp add: simpleMovingAverageForecast_def Let_def)
  have w: "list_all (\<lambda>r. fc_modelVersion r = ''simple-ma'' \<and> fc_predictedDemand r = avg \<and>
                         fc_lowerBound r = avg * (7 / 10) \<and> fc_upperBound r = avg * (13 / 10) \<and>
                         fc_confidence r = 6 / 10) ?rows"
    using v m by (simp add: list_all_iff)
  have "forecastDemand arithmetic service d data = (Inr res, d\<lparr>demandForecast := ?kept @ ?rows\<rparr>)"
    using r s by (cases "forecastDemand arithmetic service d data") simp
  moreover have "length ?rows = nat ?p" using l by simp
  ultimately show ?thesis using f l v w by (intro exI [of _ res] exI [of _ ?kept] exI [of _ ?rows]) simp
qed

lemma fiveDayStore_recent:
  "drop 76 (getHistoricalConsumption fiveDayStore ''item-1'' None 90) =
     [(99987, 0), (99988, 0), (99989, 0), (99990, 0), (99991, 0), (99992, 0), (99993, 0),
      (99994, 0), (99995, 2), (99996, 2), (99997, 2), (99998, 2), (99999, 2), (100000, 0)]"
  by code_simp

lemma fiveDayStore_length:
  "length (getHistoricalConsumption fiveDayStore ''item-1'' None 90) = 90"
  by code_simp

theorem forecastDemand_fallback_witness:
  "\<forall>arithmetic. \<exists>res kept rows.
     forecastDemand arithmetic unreachable fiveDayStore (sampleForecast 3) =
       (Inr res, fiveDayStore\<lparr>demandForecast := kept @ rows\<rparr>) \<and>
     length (r_forecasts res) = 3 \<and>
     list_all (\<lambda>f. fp_predictedDemand f = 5 / 7 \<and> fp_lowerBound f = 5 / 7 * (7 / 10) \<and>
                   fp_upperBound f = 5 / 7 * (13 / 10) \<and> fp_confidence f = 6 / 10)
       (r_forecasts res) \<and>
     length rows = 3 \<and>
     list_all (\<lambda>r. fc_modelVersion r = ''simple-ma'' \<and> fc_predictedDemand r = 5 / 7 \<and>
                   fc_lowerBound r = 5 / 7 * (7 / 10) \<and> fc_upperBound r = 5 / 7 * (13 / 10) \<and>
                   fc_confidence r = 6 / 10)
       rows"
proof
  fix arithmetic :: reorderArithmetic
  have a: "findItem fiveDayStore (f_itemId (sampleForecast 3)) = Some sampleItem"
    by (simp add: findItem_def fiveDayStore_def sampleStore_def sampleItem_def sampleForecast_def)
  have b: "unreachable (getHistoricalConsumption fiveDayStore (f_itemId (sampleForecast 3))
                (f_propertyId (sampleForecast 3)) config_forecasting_historicalDays,
              nullishOr (f_periodDays (sampleForecast 3)) 30, f_itemId (sampleForecast 3),
              f_propertyId (sampleForecast 3)) = None"
    by (simp add: unreachable_def)
  have c: "(5 / 7 :: real) = real_of_int (sum_list (map snd
             (drop (length (getHistoricalConsumption fiveDayStore (f_itemId (sampleForecast 3))
                              (f_propertyId (sampleForecast 3))
                              config_forecasting_historicalDays) - 14)
                (getHistoricalConsumption fiveDayStore (f_itemId (sampleForecast 3))
                   (f_propertyId (sampleForecast 3)) config_forecasting_historicalDays)))) / 14"
    by (simp add: sampleForecast_def config_forecasting_historicalDays_def
                  fiveDayStore_length fiveDayStore_recent)
  have n: "nat (nullishOr (f_periodDays (sampleForecast 3)) 30) = 3"
    by (simp add: sampleForecast_def)
  from forecastDemand_fallback [where arithmetic = arithmetic and service = unreachable
         and d = fiveDayStore and data = "sampleForecast 3" and avg = "5 / 7", OF a b c]
  show "\<exists>res kept rows.
     forecastDemand arithmetic unreachable fiveDayStore (sampleForecast 3) =
       (Inr res, fiveDayStore\<lparr>demandForecast := kept @ rows\<rparr>) \<and>
     length (r_forecasts res) = 3 \<and>
     list_all (\<lambda>f. fp_predictedDemand f = 5 / 7 \<and> fp_lowerBound f = 5 / 7 * (7 / 10) \<and>
                   fp_upperBound f = 5 / 7 * (13 / 10) \<and> fp_confidence f = 6 / 10)
       (r_forecasts res) \<and>
     length rows = 3 \<and>
     list_all (\<lambda>r. fc_modelVersion r = ''simple-ma'' \<and> fc_predictedDemand r = 5 / 7 \<and>
                   fc_lowerBound r = 5 / 7 * (7 / 10) \<and> fc_upperBound r = 5 / 7 * (13 / 10) \<and>
                   fc_confidence r = 6 / 10)
       rows"
    by (simp only: n)
qed

text \<open>
  C7 (the code does otherwise). \<open>getHistoricalConsumption\<close> fills every one of the 90
  days of its window with zero before it adds the consumption, so the series
  \<open>forecastDemand\<close> measures has at least 90 entries whatever the ledger holds, and the
  check for fewer than 7 days never fires. With consumption on only five days and the
  prediction service down, \<open>forecastDemand\<close> returns a forecast and stores its 30 rows.
\<close>

theorem forecastDemand_five_days:
  "(\<forall>arithmetic.
      (\<exists>res. fst (forecastDemand arithmetic unreachable fiveDayStore (sampleForecast 30)) =
               Inr res) \<and>
      fst (forecastDemand arithmetic unreachable fiveDayStore (sampleForecast 30)) \<noteq>
        Inl InsufficientHistory \<and>
      length (demandForecast (snd (forecastDemand arithmetic unreachable fiveDayStore
                                     (sampleForecast 30)))) = 30) \<and>
   length (filter (\<lambda>t. tx_type t = CONSUME \<and> tx_status t = COMPLETED)
             (transaction fiveDayStore)) = 5 \<and>
   distinct (map (\<lambda>t. dayOf (tx_transactionDate t)) (transaction fiveDayStore))"
proof -
  have a: "findItem fiveDayStore (f_itemId (sampleForecast 30)) = Some sampleItem"
    by (simp add: findItem_def fiveDayStore_def sampleStore_def sampleItem_def sampleForecast_def)
  have b: "unreachable (getHistoricalConsumption fiveDayStore (f_itemId (sampleForecast 30))
                (f_propertyId (sampleForecast 30)) config_forecasting_historicalDays,
              nullishOr (f_periodDays (sampleForecast 30)) 30, f_itemId (sampleForecast 30),
              f_propertyId (sampleForecast 30)) = None"
    by (simp add: unreachable_def)
  have 1: "\<exists>res. fst (forecastDemand arithmetic unreachable fiveDayStore (sampleForecast 30)) =
                  Inr res"
    for arithmetic
    using forecastDemand_fallback_value(2) [where arithmetic = arithmetic
            and service = unreachable and d = fiveDayStore and data = "sampleForecast 30", OF a b] .
  have 2: "fst (forecastDemand arithmetic unreachable fiveDayStore (sampleForecast 30)) \<noteq>
             Inl InsufficientHistory"
    for arithmetic
    by (rule forecastDemand_not_insufficient)
  have 3: "length (demandForecast (snd (forecastDemand arithmetic unreachable fiveDayStore
                                            (sampleForecast 30)))) = 30"
    for arithmetic
    using forecastDemand_fallback_value(3) [where arithmetic = arithmetic
            and service = unreachable and d = fiveDayStore and data = "sampleForecast 30", OF a b]
    by (simp add: storeForecastResults_def simpleMovingAverageForecast_def Let_def
                  fiveDayStore_def sampleStore_def sampleForecast_def)
  have 4: "length (filter (\<lambda>t. tx_type t = CONSUME \<and> tx_status t = COMPLETED)
             (transaction fiveDayStore)) = 5 \<and>
           distinct (map (\<lambda>t. dayOf (tx_transactionDate t)) (transaction fiveDayStore))"
    by (simp add: fiveDayStore_def sampleStore_def consumedOn_def sampleTransaction_def
                  dayOf_def msPerDay_def)
  from 1 2 3 4 show ?thesis by blast
qed

end
